theory Spec2Isabelle
  imports Main "HOL-Library.Word" "HOL-Library.Sublist"
begin

unbundle bit_operations_syntax

section \<open>JavaScript strings and byte arrays\<close>

text \<open>
  A JavaScript string is modelled as a \<open>string\<close>: a list of code units, here the code
  units U+0000 to U+00FF that the type \<open>char\<close> holds. A \<open>Uint8Array\<close> is a list of bytes.
\<close>

type_synonym Uint8Array = "8 word list"

text \<open>
  The white space and line terminator code units that \<open>String.prototype.trim\<close> and
  \<open>parseInt\<close> strip: TAB, LF, VT, FF, CR, SP and NBSP (the others lie above U+00FF).
\<close>

definition isWhiteSpace :: "char \<Rightarrow> bool" where
  "isWhiteSpace c = ((of_char c :: nat) \<in> {9, 10, 11, 12, 13, 32, 160})"

text \<open>\<open>str.trim()\<close>\<close>

definition trim :: "string \<Rightarrow> string" where
  "trim s = rev (dropWhile isWhiteSpace (rev (dropWhile isWhiteSpace s)))"

text \<open>\<open>str.indexOf(c, fromIndex)\<close> for a one-character search string; \<open>-1\<close> when absent.\<close>

fun indexOf_aux :: "char \<Rightarrow> string \<Rightarrow> nat \<Rightarrow> int" where
  "indexOf_aux c [] i = - 1"
| "indexOf_aux c (x # xs) i = (if x = c then int i else indexOf_aux c xs (Suc i))"

definition indexOf :: "string \<Rightarrow> char \<Rightarrow> nat \<Rightarrow> int" where
  "indexOf s c fromIndex = indexOf_aux c (drop fromIndex s) fromIndex"

text \<open>\<open>str.substring(start, end)\<close> and \<open>str.substring(start)\<close>, for \<open>0 \<le> start \<le> end\<close>.\<close>

definition substring :: "string \<Rightarrow> nat \<Rightarrow> nat \<Rightarrow> string" where
  "substring s start end = take (end - start) (drop start s)"

definition substring_from :: "string \<Rightarrow> nat \<Rightarrow> string" where
  "substring_from s start = drop start s"

text \<open>
  \<open>str.split(sep)\<close>: the pieces between the successive leftmost occurrences of the
  separator; an empty separator splits into the single code units.
\<close>

function split :: "string \<Rightarrow> string \<Rightarrow> string list" where
  "split s sep =
     (if sep = [] then map (\<lambda>c. [c]) s
      else if s = [] then [[]]
      else if prefix sep s then [] # split (drop (length sep) s) sep
      else (case split (tl s) sep of
              [] \<Rightarrow> [[hd s]]
            | piece # pieces \<Rightarrow> (hd s # piece) # pieces))"
  by pat_completeness auto
termination
  by (relation "measure (\<lambda>(s, sep). length s)") (auto simp: neq_Nil_conv)

declare split.simps [simp del]

text \<open>Truthiness of a value of type \<open>string | undefined\<close>.\<close>

definition truthy :: "string option \<Rightarrow> bool" where
  "truthy v = (case v of None \<Rightarrow> False | Some s \<Rightarrow> s \<noteq> [])"

text \<open>\<open>new TextEncoder().encode(str)\<close>: UTF-8, one or two bytes for a code unit below U+0100.\<close>

definition utf8_unit :: "char \<Rightarrow> Uint8Array" where
  "utf8_unit c =
     (let n = (of_char c :: nat)
      in if n < 128 then [word_of_nat n]
         else [word_of_nat (192 + n div 64), word_of_nat (128 + n mod 64)])"

definition TextEncoder_encode :: "string \<Rightarrow> Uint8Array" where
  "TextEncoder_encode s = concat (map utf8_unit s)"

section \<open>readParamString.ts\<close>

text \<open>
  The loop of \<open>readScramParamString\<close> over the parts, with the dictionary \<open>results\<close>
  passed along. The dictionary is a map from keys to values; the properties that a
  JavaScript object inherits from its prototype are left out.
\<close>

fun readParts :: "string list \<Rightarrow> (string \<rightharpoonup> string) \<Rightarrow> (string \<rightharpoonup> string)" where
  "readParts [] results = results"
| "readParts (part # parts) results =
     (let index = indexOf part (CHR ''='') 0
      in if index \<noteq> - 1
         then (let left = trim (substring part 0 (nat index));
                   right = trim (substring_from part (nat index + 1))
               in readParts parts (results(left \<mapsto> right)))
         else readParts parts results)"

definition readScramParamString :: "string \<Rightarrow> (string \<rightharpoonup> string)" where
  "readScramParamString str = readParts (split str '','') Map.empty"

text \<open>
  \<open>parseInt(str)\<close> without a radix: leading white space is skipped, a sign is read, a
  prefix \<open>0x\<close> or \<open>0X\<close> selects radix 16, and the longest run of digits is the value;
  \<open>None\<close> is \<open>NaN\<close> (no digit). The value is an exact integer here (a JavaScript
  number rounds it above \<open>2^53\<close>).
\<close>

definition digitValue :: "char \<Rightarrow> nat option" where
  "digitValue c =
     (let n = (of_char c :: nat)
      in if 48 \<le> n \<and> n \<le> 57 then Some (n - 48)
         else if 97 \<le> n \<and> n \<le> 122 then Some (n - 87)
         else if 65 \<le> n \<and> n \<le> 90 then Some (n - 55)
         else None)"

definition isDigit :: "nat \<Rightarrow> char \<Rightarrow> bool" where
  "isDigit radix c = (case digitValue c of None \<Rightarrow> False | Some d \<Rightarrow> d < radix)"

definition digitsValue :: "nat \<Rightarrow> string \<Rightarrow> nat" where
  "digitsValue radix z =
     foldl (\<lambda>acc c. acc * radix + (case digitValue c of None \<Rightarrow> 0 | Some d \<Rightarrow> d)) 0 z"

definition parseInt :: "string \<Rightarrow> int option" where
  "parseInt str =
     (let s0 = dropWhile isWhiteSpace str;
          sign = (if take 1 s0 = ''-'' then - 1 else 1 :: int);
          s1 = (if take 1 s0 = ''+'' \<or> take 1 s0 = ''-'' then drop 1 s0 else s0);
          hex = (take 2 s1 = ''0x'' \<or> take 2 s1 = ''0X'');
          radix = (if hex then 16 else 10);
          s2 = (if hex then drop 2 s1 else s1);
          z = takeWhile (isDigit radix) s2
      in if z = [] then None else Some (sign * int (digitsValue radix z)))"

text \<open>
  The decimal text of an integer, as a template literal \<open>`${n}`\<close> renders a number
  (JavaScript switches to exponent notation from \<open>10^21\<close> on).
\<close>

definition digitChar :: "nat \<Rightarrow> char" where
  "digitChar d = char_of (48 + d)"

fun decimal :: "nat \<Rightarrow> string" where
  "decimal n = (if n < 10 then [digitChar n] else decimal (n div 10) @ [digitChar (n mod 10)])"

declare decimal.simps [simp del]

definition Number_toString :: "int \<Rightarrow> string" where
  "Number_toString n = (if n < 0 then ''-'' @ decimal (nat (- n)) else decimal (nat n))"

text \<open>The characters of a decimal numeral.\<close>

definition decimal_digit :: "char \<Rightarrow> bool" where
  "decimal_digit c = (c \<in> set ''0123456789'')"

text \<open>Array destructuring \<open>[a, b] = xs\<close>: an element, or \<open>undefined\<close> past the end.\<close>

definition element :: "'a list \<Rightarrow> nat \<Rightarrow> 'a option" where
  "element xs i = (if i < length xs then Some (xs ! i) else None)"

text \<open>The string held by a value that was checked to be truthy.\<close>

definition strval :: "string option \<Rightarrow> string" where
  "strval v = (case v of None \<Rightarrow> [] | Some s \<Rightarrow> s)"

section \<open>ScramError.ts and thrown values\<close>

text \<open>
  A thrown value is an \<open>Error\<close> with its message, a \<open>ScramError\<close> with its error code,
  or the \<open>TypeError\<close> of a property read on \<open>undefined\<close>.
\<close>

datatype exn = Error string | ScramError string | TypeError

abbreviation "SCRAM_INVALID_ENCODING \<equiv> ''invalid-encoding''"
abbreviation "SCRAM_EXTENSIONS_NOT_SUPPORTED \<equiv> ''extensions-not-supported''"
abbreviation "SCRAM_INVALID_PROOF \<equiv> ''invalid-proof''"
abbreviation "SCRAM_CHANNEL_BINDING_NOT_SUPPORTED \<equiv> ''channel-binding-not-supported''"
abbreviation "SCRAM_UNKNOWN_USER \<equiv> ''unknown-user''"
abbreviation "SCRAM_OTHER_ERROR \<equiv> ''other-error''"

text \<open>\<open>`${error.errorCode}`\<close> for a caught value: only a \<open>ScramError\<close> has the property.\<close>

definition errorCode_text :: "exn \<Rightarrow> string" where
  "errorCode_text e = (case e of ScramError code \<Rightarrow> code | _ \<Rightarrow> ''undefined'')"

section \<open>The libraries the package calls\<close>

text \<open>
  WebCrypto (\<open>crypto.subtle\<close> of @peculiar/webcrypto), js-base64 and saslprep are not
  part of the package; the model takes them as a parameter. \<open>subtle_sign h key data\<close> is
  \<open>subtle.sign("HMAC", key, data)\<close> for a key imported with hash \<open>h\<close>,
  \<open>subtle_digest h data\<close> is \<open>subtle.digest(h, data)\<close>, and
  \<open>subtle_deriveBits h password salt iterations length\<close> is PBKDF2. They are total here:
  the operations of the package hand them non-empty keys.
\<close>

record libs =
  subtle_sign :: "string \<Rightarrow> Uint8Array \<Rightarrow> Uint8Array \<Rightarrow> Uint8Array"
  subtle_digest :: "string \<Rightarrow> Uint8Array \<Rightarrow> Uint8Array"
  subtle_deriveBits :: "string \<Rightarrow> Uint8Array \<Rightarrow> Uint8Array \<Rightarrow> int \<Rightarrow> nat \<Rightarrow> Uint8Array"
  Base64_fromUint8Array :: "Uint8Array \<Rightarrow> string"
  Base64_toUint8Array :: "string \<Rightarrow> Uint8Array"
  Base64_encode :: "string \<Rightarrow> string"
  saslPrep :: "string \<Rightarrow> exn + string"

section \<open>xorArrayBuffer.ts\<close>

text \<open>
  The result has the length of the left buffer; past the end of the right buffer
  \<open>right[i]\<close> is \<open>undefined\<close>, which \<open>^\<close> reads as 0.
\<close>

fun xorArrayBuffer :: "Uint8Array \<Rightarrow> Uint8Array \<Rightarrow> Uint8Array" where
  "xorArrayBuffer [] right = []"
| "xorArrayBuffer (l # left) [] = (l XOR 0) # xorArrayBuffer left []"
| "xorArrayBuffer (l # left) (r # right) = (l XOR r) # xorArrayBuffer left right"

section \<open>ScramAlgo.ts\<close>

record ScramAlgo =
  algo_name :: string
  keylen :: nat

definition pbkdf2 :: "libs \<Rightarrow> ScramAlgo \<Rightarrow> Uint8Array \<Rightarrow> Uint8Array \<Rightarrow> int \<Rightarrow> Uint8Array" where
  "pbkdf2 L a password salt iterations =
     subtle_deriveBits L (algo_name a) password salt iterations (keylen a)"

text \<open>\<open>hmac(message, secret)\<close> imports \<open>secret\<close> as the key and signs \<open>message\<close>.\<close>

definition hmac :: "libs \<Rightarrow> ScramAlgo \<Rightarrow> Uint8Array \<Rightarrow> Uint8Array \<Rightarrow> Uint8Array" where
  "hmac L a message secret = subtle_sign L (algo_name a) secret message"

definition hash :: "libs \<Rightarrow> ScramAlgo \<Rightarrow> Uint8Array \<Rightarrow> Uint8Array" where
  "hash L a text = subtle_digest L (algo_name a) text"

definition ScramAlgo_getSaltedPassword ::
  "libs \<Rightarrow> ScramAlgo \<Rightarrow> string \<Rightarrow> Uint8Array \<Rightarrow> int \<Rightarrow> exn + Uint8Array" where
  "ScramAlgo_getSaltedPassword L a password salt iterations =
     (case saslPrep L password of
        Inl e \<Rightarrow> Inl e
      | Inr prepedPassword \<Rightarrow> Inr (pbkdf2 L a (TextEncoder_encode prepedPassword) salt iterations))"

definition getClientKey :: "libs \<Rightarrow> ScramAlgo \<Rightarrow> Uint8Array \<Rightarrow> Uint8Array" where
  "getClientKey L a saltedPassword = hmac L a saltedPassword (TextEncoder_encode ''Client Key'')"

definition getStoredKey :: "libs \<Rightarrow> ScramAlgo \<Rightarrow> Uint8Array \<Rightarrow> Uint8Array" where
  "getStoredKey L a saltedPassword = hash L a (getClientKey L a saltedPassword)"

definition getServerKey :: "libs \<Rightarrow> ScramAlgo \<Rightarrow> Uint8Array \<Rightarrow> Uint8Array" where
  "getServerKey L a saltedPassword = hmac L a saltedPassword (TextEncoder_encode ''Server Key'')"

section \<open>The four messages\<close>

subsection \<open>ScramMessageClientFirst.ts\<close>

record ScramMessageClientFirst =
  cfirst_message :: string
  cfirst_messageBare :: string
  cfirst_user :: string
  cfirst_gs2CbindFlag :: string
  cfirst_nonce :: string
  cfirst_mext :: "string option"

definition new_ScramMessageClientFirst :: "libs \<Rightarrow> string \<Rightarrow> exn + ScramMessageClientFirst" where
  "new_ScramMessageClientFirst L message =
     (let index = nat (indexOf message (CHR '','') (nat (indexOf message (CHR '','') 0 + 1)) + 1);
          gs2CbindFlag = element (split (substring message 0 index) '','') 0;
          messageBare = substring_from message index;
          params = readScramParamString message
      in if \<not> truthy (params ''n'') then Inl (Error ''Unable to read client-first-message'')
         else (case saslPrep L (strval (params ''n'')) of
                 Inl e \<Rightarrow> Inl e
               | Inr user \<Rightarrow>
                   if \<not> truthy (params ''r'') \<or> user = [] \<or> \<not> truthy gs2CbindFlag
                   then Inl (Error ''Unable to read client-first-message'')
                   else Inr \<lparr>cfirst_message = message, cfirst_messageBare = messageBare,
                             cfirst_user = user, cfirst_gs2CbindFlag = strval gs2CbindFlag,
                             cfirst_nonce = strval (params ''r''), cfirst_mext = params ''m''\<rparr>))"

subsection \<open>ScramMessageServerFirst.ts\<close>

record ScramMessageServerFirst =
  sfirst_message :: string
  sfirst_nonce :: string
  sfirst_salt :: Uint8Array
  sfirst_iterations :: int

definition new_ScramMessageServerFirst :: "libs \<Rightarrow> string \<Rightarrow> exn + ScramMessageServerFirst" where
  "new_ScramMessageServerFirst L message =
     (let params = readScramParamString message
      in if \<not> truthy (params ''r'') \<or> \<not> truthy (params ''s'') \<or> \<not> truthy (params ''i'')
         then Inl (Error ''Unable to read server-first-message'')
         else (case parseInt (strval (params ''i'')) of
                 None \<Rightarrow> Inl (Error ''Unable to read server-first-message'')
               | Some iterations \<Rightarrow>
                   Inr \<lparr>sfirst_message = message, sfirst_nonce = strval (params ''r''),
                        sfirst_salt = Base64_toUint8Array L (strval (params ''s'')),
                        sfirst_iterations = iterations\<rparr>))"

subsection \<open>ScramMessageClientFinal.ts\<close>

record ScramMessageClientFinal =
  cfinal_message :: string
  cfinal_messageWithoutProof :: string
  cfinal_gs2Header :: string
  cfinal_nonce :: string
  cfinal_clientProof :: string

definition new_ScramMessageClientFinal :: "string \<Rightarrow> exn + ScramMessageClientFinal" where
  "new_ScramMessageClientFinal message =
     (let pieces = split message '',p='';
          clientFinalWithoutProof = element pieces 0;
          proof = element pieces 1;
          params = readScramParamString (strval clientFinalWithoutProof)
      in if \<not> truthy (params ''c'') \<or> \<not> truthy (params ''r'')
            \<or> \<not> truthy clientFinalWithoutProof \<or> \<not> truthy proof
         then Inl (Error ''Unable to read client-final-message'')
         else Inr \<lparr>cfinal_message = message,
                   cfinal_messageWithoutProof = strval clientFinalWithoutProof,
                   cfinal_gs2Header = strval (params ''c''), cfinal_nonce = strval (params ''r''),
                   cfinal_clientProof = strval proof\<rparr>)"

subsection \<open>ScramMessageServerFinal.ts\<close>

text \<open>The fields \<open>error\<close> and \<open>verifier\<close> have type \<open>string | false\<close>; \<open>None\<close> is \<open>false\<close>.\<close>

record ScramMessageServerFinal =
  sfinal_message :: string
  sfinal_error :: "string option"
  sfinal_verifier :: "string option"

definition or_false :: "string option \<Rightarrow> string option" where
  "or_false v = (if truthy v then v else None)"

definition new_ScramMessageServerFinal :: "string \<Rightarrow> exn + ScramMessageServerFinal" where
  "new_ScramMessageServerFinal message =
     (let params = readScramParamString message;
          error = or_false (params ''e'');
          verifier = or_false (params ''v'')
      in if error = None \<and> verifier = None
         then Inl (Error ''Unable to read server-final-message'')
         else Inr \<lparr>sfinal_message = message, sfinal_error = error, sfinal_verifier = verifier\<rparr>)"

section \<open>ScramUser.ts, ScramUserRepo.ts and SaltGenerator.ts\<close>

record ScramUser =
  user_username :: string
  user_salt :: Uint8Array
  user_iterations :: int
  user_serverKey :: Uint8Array
  user_storedKey :: Uint8Array

text \<open>
  A repository is a dictionary from user names to users; \<open>find\<close> throws the
  \<open>ScramError\<close> \<open>unknown-user\<close> for an absent user, as \<open>MockScramUserRepo\<close> does.
\<close>

type_synonym ScramUserRepo = "string \<rightharpoonup> ScramUser"

definition repo_has :: "ScramUserRepo \<Rightarrow> string \<Rightarrow> bool" where
  "repo_has users username = (users username \<noteq> None)"

definition repo_find :: "ScramUserRepo \<Rightarrow> string \<Rightarrow> exn + ScramUser" where
  "repo_find users username =
     (case users username of None \<Rightarrow> Inl (ScramError SCRAM_UNKNOWN_USER) | Some user \<Rightarrow> Inr user)"

definition repo_addUser :: "ScramUserRepo \<Rightarrow> ScramUser \<Rightarrow> ScramUserRepo" where
  "repo_addUser users user = users(user_username user \<mapsto> user)"

text \<open>A salt generator is its method \<open>get\<close>.\<close>

type_synonym SaltGenerator = "string \<Rightarrow> Uint8Array"

definition PepperedSaltGenerator :: "libs \<Rightarrow> ScramAlgo \<Rightarrow> string \<Rightarrow> SaltGenerator" where
  "PepperedSaltGenerator L a pepper username =
     hash L a (TextEncoder_encode (username @ '':'' @ pepper))"

section \<open>ScramRequest.ts\<close>

record ScramRequest =
  algo :: ScramAlgo
  clientFirstMessage :: "ScramMessageClientFirst option"
  clientFinalMessage :: "ScramMessageClientFinal option"
  serverFirstMessage :: "ScramMessageServerFirst option"
  serverFinalMessage :: "ScramMessageServerFinal option"

definition setClientFirstMessage ::
  "'a ScramRequest_scheme \<Rightarrow> ScramMessageClientFirst \<Rightarrow> 'a ScramRequest_scheme" where
  "setClientFirstMessage this message = this\<lparr>clientFirstMessage := Some message\<rparr>"

definition setClientFinalMessage ::
  "'a ScramRequest_scheme \<Rightarrow> ScramMessageClientFinal \<Rightarrow> 'a ScramRequest_scheme" where
  "setClientFinalMessage this message = this\<lparr>clientFinalMessage := Some message\<rparr>"

definition setServerFirstMessage ::
  "'a ScramRequest_scheme \<Rightarrow> ScramMessageServerFirst \<Rightarrow> 'a ScramRequest_scheme" where
  "setServerFirstMessage this message = this\<lparr>serverFirstMessage := Some message\<rparr>"

definition setServerFinalMessage ::
  "'a ScramRequest_scheme \<Rightarrow> ScramMessageServerFinal \<Rightarrow> 'a ScramRequest_scheme" where
  "setServerFinalMessage this message = this\<lparr>serverFinalMessage := Some message\<rparr>"

text \<open>
  \<open>getAuthMessage\<close> reads the two first messages through type casts; on an unset slot
  the method call on \<open>undefined\<close> is a \<open>TypeError\<close>.
\<close>

definition getAuthMessage :: "'a ScramRequest_scheme \<Rightarrow> string \<Rightarrow> exn + Uint8Array" where
  "getAuthMessage this clientFinalWithoutProof =
     (case clientFirstMessage this of
        None \<Rightarrow> Inl TypeError
      | Some clientFirst \<Rightarrow>
          (case serverFirstMessage this of
             None \<Rightarrow> Inl TypeError
           | Some serverFirst \<Rightarrow>
               Inr (TextEncoder_encode
                      (cfirst_messageBare clientFirst @ '','' @ sfirst_message serverFirst
                         @ '','' @ clientFinalWithoutProof))))"

section \<open>ScramRequestClient.ts\<close>

text \<open>
  Every operation of an exchange returns what it returns or throws, together with the
  exchange as the call leaves it.
\<close>

record ScramRequestClient = ScramRequest +
  gs2_header :: string
  maxIterations :: int

definition DEFAULT_CONFIG_maxIterations :: int where
  "DEFAULT_CONFIG_maxIterations = 0xffffff"

definition new_ScramRequestClient :: "ScramAlgo \<Rightarrow> int option \<Rightarrow> ScramRequestClient" where
  "new_ScramRequestClient a options_maxIterations =
     \<lparr>algo = a, clientFirstMessage = None, clientFinalMessage = None,
      serverFirstMessage = None, serverFinalMessage = None,
      gs2_header = ''n,'',
      maxIterations = (case options_maxIterations of
                         None \<Rightarrow> DEFAULT_CONFIG_maxIterations | Some m \<Rightarrow> m)\<rparr>"

definition getSaltedPassword ::
  "libs \<Rightarrow> ScramRequestClient \<Rightarrow> string \<Rightarrow> (exn + Uint8Array) \<times> ScramRequestClient" where
  "getSaltedPassword L this password =
     (case (clientFirstMessage this, serverFirstMessage this) of
        (Some clientFirst, Some serverFirst) \<Rightarrow>
          (let salt = sfirst_salt serverFirst;
               iterations = sfirst_iterations serverFirst
           in if iterations > maxIterations this
              then (Inl (Error (''Iteration count of '' @ Number_toString iterations
                                  @ '' exceeed maximum of ''
                                  @ Number_toString (maxIterations this))), this)
              else (Inr (pbkdf2 L (algo this) (TextEncoder_encode password) salt iterations),
                    this))
      | _ \<Rightarrow> (Inl (Error ''Unable to create salted password, missing client-first-message or server-first-message.''), this))"

text \<open>The 24 random bytes of \<open>getRandomValues\<close> are an argument.\<close>

definition createClientFirstMessage ::
  "libs \<Rightarrow> ScramRequestClient \<Rightarrow> string \<Rightarrow> Uint8Array
     \<Rightarrow> (exn + ScramMessageClientFirst) \<times> ScramRequestClient" where
  "createClientFirstMessage L this user randomBuffer =
     (let c_nonce = Base64_fromUint8Array L randomBuffer
      in case new_ScramMessageClientFirst L
                (gs2_header this @ '',n='' @ user @ '',r='' @ c_nonce) of
           Inl e \<Rightarrow> (Inl e, this)
         | Inr message \<Rightarrow> (Inr message, this\<lparr>clientFirstMessage := Some message\<rparr>))"

definition createClientFinalMessage ::
  "libs \<Rightarrow> ScramRequestClient \<Rightarrow> Uint8Array
     \<Rightarrow> (exn + ScramMessageClientFinal) \<times> ScramRequestClient" where
  "createClientFinalMessage L this saltedPassword =
     (case (clientFirstMessage this, serverFirstMessage this) of
        (Some clientFirst, Some serverFirst) \<Rightarrow>
          (let clientKey = getClientKey L (algo this) saltedPassword;
               storedKey = getStoredKey L (algo this) saltedPassword;
               gs2header = Base64_encode L (gs2_header this @ '','');
               nonce = sfirst_nonce serverFirst;
               clientFinalWithoutProof = ''c='' @ gs2header @ '',r='' @ nonce
           in case getAuthMessage this clientFinalWithoutProof of
                Inl e \<Rightarrow> (Inl e, this)
              | Inr authMessage \<Rightarrow>
                  (let clientSignature = hmac L (algo this) storedKey authMessage;
                       proof = Base64_fromUint8Array L (xorArrayBuffer clientKey clientSignature)
                   in case new_ScramMessageClientFinal (clientFinalWithoutProof @ '',p='' @ proof) of
                        Inl e \<Rightarrow> (Inl e, this)
                      | Inr message \<Rightarrow> (Inr message, this\<lparr>clientFinalMessage := Some message\<rparr>)))
      | _ \<Rightarrow> (Inl (Error ''Unable to create client-final-message, missing client-first-message or server-first-message.''), this))"

definition verifyServerFinalMessage ::
  "libs \<Rightarrow> ScramRequestClient \<Rightarrow> Uint8Array \<Rightarrow> (exn + bool) \<times> ScramRequestClient" where
  "verifyServerFinalMessage L this saltedPassword =
     (case (clientFirstMessage this, serverFirstMessage this,
            clientFinalMessage this, serverFinalMessage this) of
        (Some clientFirst, Some serverFirst, Some clientFinal, Some serverFinal) \<Rightarrow>
          (let serverKey = getServerKey L (algo this) saltedPassword
           in case getAuthMessage this (cfinal_messageWithoutProof clientFinal) of
                Inl e \<Rightarrow> (Inl e, this)
              | Inr authMessage \<Rightarrow>
                  (let proof = Base64_fromUint8Array L (hmac L (algo this) serverKey authMessage)
                   in (Inr (sfinal_verifier serverFinal = Some proof), this)))
      | _ \<Rightarrow> (Inl (Error ''Unable to verify server-final-message, missing client-first-message, server-first-message, client-final-message or server-final-message.''), this))"

section \<open>ScramRequestServer.ts\<close>

record ScramRequestServer = ScramRequest +
  repo :: ScramUserRepo
  saltGenerator :: SaltGenerator
  default_iterations :: int
  concealErrors :: bool

definition DEFAULT_CONFIG_concealErrors :: bool where
  "DEFAULT_CONFIG_concealErrors = False"

definition new_ScramRequestServer ::
  "ScramAlgo \<Rightarrow> ScramUserRepo \<Rightarrow> SaltGenerator \<Rightarrow> int \<Rightarrow> bool option \<Rightarrow> ScramRequestServer" where
  "new_ScramRequestServer a users generator n options_concealErrors =
     \<lparr>algo = a, clientFirstMessage = None, clientFinalMessage = None,
      serverFirstMessage = None, serverFinalMessage = None,
      repo = users, saltGenerator = generator, default_iterations = n,
      concealErrors = (case options_concealErrors of
                         None \<Rightarrow> DEFAULT_CONFIG_concealErrors | Some b \<Rightarrow> b)\<rparr>"

definition createServerFirstMessage ::
  "libs \<Rightarrow> ScramRequestServer \<Rightarrow> Uint8Array
     \<Rightarrow> (exn + ScramMessageServerFirst) \<times> ScramRequestServer" where
  "createServerFirstMessage L this randomBuffer =
     (case clientFirstMessage this of
        Some clientFirst \<Rightarrow>
          (let username = cfirst_user clientFirst;
               c_nonce = cfirst_nonce clientFirst
           in case (if repo_has (repo this) username
                    then (case repo_find (repo this) username of
                            Inl e \<Rightarrow> Inl e
                          | Inr user \<Rightarrow> Inr (user_salt user, user_iterations user))
                    else Inr (saltGenerator this username, default_iterations this)) of
                Inl e \<Rightarrow> (Inl e, this)
              | Inr (salt, iterations) \<Rightarrow>
                  (let encodedSalt = Base64_fromUint8Array L salt;
                       s_nonce = Base64_fromUint8Array L randomBuffer;
                       nonce = c_nonce @ s_nonce
                   in case new_ScramMessageServerFirst L
                             (''r='' @ nonce @ '',s='' @ encodedSalt
                                @ '',i='' @ Number_toString iterations) of
                        Inl e \<Rightarrow> (Inl e, this)
                      | Inr message \<Rightarrow> (Inr message, this\<lparr>serverFirstMessage := Some message\<rparr>)))
      | None \<Rightarrow> (Inl (Error ''Unable to create server-first-message, missing client-first-message.''), this))"

definition verifyClientFinalMessage ::
  "libs \<Rightarrow> ScramRequestServer \<Rightarrow> (exn + bool) \<times> ScramRequestServer" where
  "verifyClientFinalMessage L this =
     (case (clientFirstMessage this, serverFirstMessage this, clientFinalMessage this) of
        (Some clientFirst, Some serverFirst, Some clientFinal) \<Rightarrow>
          (let username = cfirst_user clientFirst
           in if \<not> repo_has (repo this) username then (Inr False, this)
              else (case repo_find (repo this) username of
                      Inl e \<Rightarrow> (Inl e, this)
                    | Inr user \<Rightarrow>
                        (let clientProof = Base64_toUint8Array L (cfinal_clientProof clientFinal);
                             storedKey = user_storedKey user
                         in case getAuthMessage this (cfinal_messageWithoutProof clientFinal) of
                              Inl e \<Rightarrow> (Inl e, this)
                            | Inr authMessage \<Rightarrow>
                                (let clientSignature = hmac L (algo this) storedKey authMessage;
                                     clientKey = xorArrayBuffer clientSignature clientProof
                                 in (Inr (Base64_fromUint8Array L storedKey
                                            = Base64_fromUint8Array L (hash L (algo this) clientKey)),
                                     this)))))
      | _ \<Rightarrow> (Inl (Error ''Unable to verify client-final-message, missing client-first-message, server-first-message, or client-final-message.''), this))"

text \<open>
  The \<open>try\<close> block of \<open>createServerFinalMessage\<close>: the server-final-message it builds,
  or the value it throws.
\<close>

definition createServerFinalMessage_try ::
  "libs \<Rightarrow> ScramRequestServer \<Rightarrow> ScramMessageClientFirst \<Rightarrow> ScramMessageClientFinal
     \<Rightarrow> exn + ScramMessageServerFinal" where
  "createServerFinalMessage_try L this clientFirst clientFinal =
     (let username = cfirst_user clientFirst
      in if truthy (cfirst_mext clientFirst) then Inl (ScramError SCRAM_EXTENSIONS_NOT_SUPPORTED)
         else if cfirst_gs2CbindFlag clientFirst \<noteq> ''n''
         then Inl (ScramError SCRAM_CHANNEL_BINDING_NOT_SUPPORTED)
         else (case repo_find (repo this) username of
                 Inl e \<Rightarrow> Inl e
               | Inr user \<Rightarrow>
                   (let serverKey = user_serverKey user
                    in case getAuthMessage this (cfinal_messageWithoutProof clientFinal) of
                         Inl e \<Rightarrow> Inl e
                       | Inr authMessage \<Rightarrow>
                           (let proof = Base64_fromUint8Array L
                                          (hmac L (algo this) serverKey authMessage)
                            in case fst (verifyClientFinalMessage L this) of
                                 Inl e \<Rightarrow> Inl e
                               | Inr valid \<Rightarrow>
                                   if \<not> valid then Inl (ScramError SCRAM_INVALID_PROOF)
                                   else new_ScramMessageServerFinal (''v='' @ proof)))))"

definition createServerFinalMessage ::
  "libs \<Rightarrow> ScramRequestServer \<Rightarrow> (exn + ScramMessageServerFinal) \<times> ScramRequestServer" where
  "createServerFinalMessage L this =
     (case (clientFirstMessage this, serverFirstMessage this, clientFinalMessage this) of
        (Some clientFirst, Some serverFirst, Some clientFinal) \<Rightarrow>
          (case createServerFinalMessage_try L this clientFirst clientFinal of
             Inr message \<Rightarrow> (Inr message, this\<lparr>serverFinalMessage := Some message\<rparr>)
           | Inl error \<Rightarrow>
               (case new_ScramMessageServerFinal
                       (if concealErrors this then ''e='' @ SCRAM_OTHER_ERROR
                        else ''e='' @ errorCode_text error) of
                  Inl e \<Rightarrow> (Inl e, this)
                | Inr message \<Rightarrow> (Inr message, this\<lparr>serverFinalMessage := Some message\<rparr>)))
      | _ \<Rightarrow> (Inl (Error ''Unable to create server-final-message, missing client-first-message, server-first-message, or client-final-message.''), this))"

section \<open>request.spec.ts: registration and the standard exchange\<close>

text \<open>\<open>registerUser\<close> of the test suite: the user is stored under the prepared name.\<close>

definition registerUser ::
  "libs \<Rightarrow> ScramAlgo \<Rightarrow> ScramUserRepo \<Rightarrow> string \<Rightarrow> Uint8Array \<Rightarrow> Uint8Array \<Rightarrow> int
     \<Rightarrow> exn + ScramUserRepo" where
  "registerUser L a users username salt saltedPassword n =
     (case saslPrep L username of
        Inl e \<Rightarrow> Inl e
      | Inr preppedUsername \<Rightarrow>
          (let serverKey = getServerKey L a saltedPassword;
               storedKey = getStoredKey L a saltedPassword
           in Inr (repo_addUser users
                     \<lparr>user_username = preppedUsername, user_salt = salt, user_iterations = n,
                      user_serverKey = serverKey, user_storedKey = storedKey\<rparr>)))"

text \<open>
  The test "handles a standard authentication exchange": the two verdicts
  (\<open>server.verifyClientFinalMessage()\<close>, \<open>client.verifyServerFinalMessage(saltedPassword)\<close>)
  after the four messages went back and forth, or the first value thrown.
\<close>

definition standard_authentication_exchange ::
  "libs \<Rightarrow> ScramAlgo \<Rightarrow> ScramUserRepo \<Rightarrow> SaltGenerator \<Rightarrow> int \<Rightarrow> string \<Rightarrow> Uint8Array
     \<Rightarrow> Uint8Array \<Rightarrow> Uint8Array \<Rightarrow> exn + (bool \<times> bool)" where
  "standard_authentication_exchange L a users generator n username saltedPassword
       clientRandom serverRandom =
     (let client0 = new_ScramRequestClient a None;
          server0 = new_ScramRequestServer a users generator n None
      in case createClientFirstMessage L client0 username clientRandom of
           (Inl e, _) \<Rightarrow> Inl e
         | (Inr clientFirst, client1) \<Rightarrow>
      (let server1 = setClientFirstMessage server0 clientFirst
       in case createServerFirstMessage L server1 serverRandom of
            (Inl e, _) \<Rightarrow> Inl e
          | (Inr serverFirst, server2) \<Rightarrow>
      (let client2 = setServerFirstMessage client1 serverFirst
       in case createClientFinalMessage L client2 saltedPassword of
            (Inl e, _) \<Rightarrow> Inl e
          | (Inr clientFinal, client3) \<Rightarrow>
      (let server3 = setClientFinalMessage server2 clientFinal
       in case createServerFinalMessage L server3 of
            (Inl e, _) \<Rightarrow> Inl e
          | (Inr serverFinal, server4) \<Rightarrow>
      (let client4 = setServerFinalMessage client3 serverFinal
       in case verifyClientFinalMessage L server4 of
            (Inl e, _) \<Rightarrow> Inl e
          | (Inr serverVerdict, _) \<Rightarrow>
              (case verifyServerFinalMessage L client4 saltedPassword of
                 (Inl e, _) \<Rightarrow> Inl e
               | (Inr clientVerdict, _) \<Rightarrow> Inr (serverVerdict, clientVerdict)))))))"

section \<open>Notions of the specification\<close>


text \<open>
  The server-final-message that reports an error code on the wire: the code itself, or
  \<open>other-error\<close> in its place when errors are concealed.
\<close>

definition error_reply :: "bool \<Rightarrow> string \<Rightarrow> ScramMessageServerFinal" where
  "error_reply conceal code =
     (let outgoing = (if conceal then SCRAM_OTHER_ERROR else code)
      in \<lparr>sfinal_message = ''e='' @ outgoing, sfinal_error = Some outgoing,
           sfinal_verifier = None\<rparr>)"

text \<open>
  A token: a non-empty text without a comma that neither starts nor ends with white
  space, so that it travels unchanged as the value of a parameter.
\<close>

definition token :: "string \<Rightarrow> bool" where
  "token s = (s \<noteq> [] \<and> CHR '','' \<notin> set s \<and> \<not> isWhiteSpace (hd s) \<and> \<not> isWhiteSpace (last s))"

text \<open>
  What the exchange relies on from the libraries: decoding inverts encoding, the
  encoding of a non-empty array and of the GS2 header are tokens, and every HMAC of the
  algorithm has the same, non-zero length.
\<close>

definition libs_ok :: "libs \<Rightarrow> ScramAlgo \<Rightarrow> bool" where
  "libs_ok L a =
     ((\<forall>b. Base64_toUint8Array L (Base64_fromUint8Array L b) = b)
      \<and> (\<forall>b. b \<noteq> [] \<longrightarrow> token (Base64_fromUint8Array L b))
      \<and> token (Base64_encode L ''n,,'')
      \<and> (\<forall>k d. subtle_sign L (algo_name a) k d \<noteq> [])
      \<and> (\<forall>k d k' d'. length (subtle_sign L (algo_name a) k d)
                       = length (subtle_sign L (algo_name a) k' d')))"

section \<open>A small instance of the libraries\<close>

text \<open>
  Concrete stand-ins on which the operations can be run: checksums for the hash
  functions, base 16 for the byte encoding, and a preparation of names that deletes
  the soft hyphen U+00AD (which SASLprep maps to nothing).
\<close>

definition hexChar :: "nat \<Rightarrow> char" where
  "hexChar d = (if d < 10 then char_of (48 + d) else char_of (87 + d))"

definition hexByte :: "8 word \<Rightarrow> string" where
  "hexByte b = [hexChar (unat b div 16), hexChar (unat b mod 16)]"

definition hexValue :: "char \<Rightarrow> nat" where
  "hexValue c = (case digitValue c of None \<Rightarrow> 0 | Some d \<Rightarrow> d)"

fun unhex :: "string \<Rightarrow> Uint8Array" where
  "unhex (c # d # rest) = word_of_nat (16 * hexValue c + hexValue d) # unhex rest"
| "unhex _ = []"

definition demo_libs :: libs where
  "demo_libs =
     \<lparr>subtle_sign = (\<lambda>h key data. [sum_list key, sum_list data]),
      subtle_digest = (\<lambda>h data. [sum_list data, word_of_nat (length data)]),
      subtle_deriveBits = (\<lambda>h password salt n len. [sum_list password, sum_list salt, word_of_int n]),
      Base64_fromUint8Array = (\<lambda>bytes. concat (map hexByte bytes)),
      Base64_toUint8Array = unhex,
      Base64_encode = (\<lambda>s. concat (map hexByte (TextEncoder_encode s))),
      saslPrep = (\<lambda>s. Inr (filter (\<lambda>c. c \<noteq> CHR 0xAD) s))\<rparr>"

definition demo_algo :: ScramAlgo where
  "demo_algo = \<lparr>algo_name = ''SHA-256'', keylen = 256\<rparr>"

text \<open>
  A registered user \<open>user\<close> with the password \<open>pencil\<close>, and the two first messages of an
  exchange for that user, each as its constructor reads it from the text.
\<close>

definition demo_saltedPassword :: Uint8Array where
  "demo_saltedPassword = pbkdf2 demo_libs demo_algo (TextEncoder_encode ''pencil'') [1, 2, 3] 4096"

definition demo_users :: ScramUserRepo where
  "demo_users =
     repo_addUser Map.empty
       \<lparr>user_username = ''user'', user_salt = [1, 2, 3], user_iterations = 4096,
        user_serverKey = getServerKey demo_libs demo_algo demo_saltedPassword,
        user_storedKey = getStoredKey demo_libs demo_algo demo_saltedPassword\<rparr>"

definition demo_clientFirst :: ScramMessageClientFirst where
  "demo_clientFirst =
     \<lparr>cfirst_message = ''n,,n=user,r=rOprNGfwEbeRWgbNEkqO'',
      cfirst_messageBare = ''n=user,r=rOprNGfwEbeRWgbNEkqO'',
      cfirst_user = ''user'', cfirst_gs2CbindFlag = ''n'',
      cfirst_nonce = ''rOprNGfwEbeRWgbNEkqO'', cfirst_mext = None\<rparr>"

definition demo_serverFirst :: ScramMessageServerFirst where
  "demo_serverFirst =
     \<lparr>sfirst_message = ''r=rOprNGfwEbeRWgbNEkqO3rfcNHYJY1ZVvWVs7j,s=010203,i=4096'',
      sfirst_nonce = ''rOprNGfwEbeRWgbNEkqO3rfcNHYJY1ZVvWVs7j'',
      sfirst_salt = [1, 2, 3], sfirst_iterations = 4096\<rparr>"

definition demo_client :: ScramRequestClient where
  "demo_client =
     setServerFirstMessage
       (setClientFirstMessage (new_ScramRequestClient demo_algo None) demo_clientFirst)
       demo_serverFirst"

definition demo_clientFinal :: ScramMessageClientFinal where
  "demo_clientFinal =
     \<lparr>cfinal_message = ''c=6e2c2c,r=rOprNGfwEbeRWgbNEkqO3rfcNHYJY1ZVvWVs7j,p=feaa'',
      cfinal_messageWithoutProof = ''c=6e2c2c,r=rOprNGfwEbeRWgbNEkqO3rfcNHYJY1ZVvWVs7j'',
      cfinal_gs2Header = ''6e2c2c'',
      cfinal_nonce = ''rOprNGfwEbeRWgbNEkqO3rfcNHYJY1ZVvWVs7j'',
      cfinal_clientProof = ''feaa''\<rparr>"

definition demo_server :: ScramRequestServer where
  "demo_server =
     setClientFinalMessage
       (setServerFirstMessage
          (setClientFirstMessage
             (new_ScramRequestServer demo_algo demo_users (\<lambda>username. [9]) 4096 None)
             demo_clientFirst)
          demo_serverFirst)
       demo_clientFinal"

section \<open>Facts about the string operations\<close>

lemma indexOf_aux_absent: "indexOf_aux c s i = - 1 \<longleftrightarrow> c \<notin> set s"
  by (induction s arbitrary: i) auto

lemma indexOf_aux_present:
  "c \<in> set s \<Longrightarrow> indexOf_aux c s i = int (i + length (takeWhile (\<lambda>x. x \<noteq> c) s))"
  by (induction s arbitrary: i) auto

lemma indexOf_absent: "indexOf s c 0 = - 1 \<longleftrightarrow> c \<notin> set s"
  by (simp add: indexOf_def indexOf_aux_absent)

lemma indexOf_present:
  "c \<in> set s \<Longrightarrow> nat (indexOf s c 0) = length (takeWhile (\<lambda>x. x \<noteq> c) s)"
  by (simp add: indexOf_def indexOf_aux_present)

lemma take_length_takeWhile: "take (length (takeWhile P s)) s = takeWhile P s"
  by (induction s) auto

lemma drop_length_takeWhile: "drop (length (takeWhile P s)) s = dropWhile P s"
  by (induction s) auto

lemma substring_key:
  "CHR ''='' \<in> set part \<Longrightarrow>
     substring part 0 (nat (indexOf part (CHR ''='') 0)) = takeWhile (\<lambda>c. c \<noteq> CHR ''='') part"
  by (simp add: indexOf_present substring_def take_length_takeWhile)

lemma substring_value:
  "CHR ''='' \<in> set part \<Longrightarrow>
     substring_from part (Suc (nat (indexOf part (CHR ''='') 0)))
       = tl (dropWhile (\<lambda>c. c \<noteq> CHR ''='') part)"
  by (simp add: indexOf_present substring_from_def drop_Suc tl_drop [symmetric]
      drop_length_takeWhile)

text \<open>One round of the loop: a part without \<open>=\<close> is skipped, any other part is stored.\<close>

lemma readParts_step:
  "readParts (part # parts) results =
     (if CHR ''='' \<in> set part
      then readParts parts (results(trim (takeWhile (\<lambda>c. c \<noteq> CHR ''='') part) \<mapsto>
                                      trim (tl (dropWhile (\<lambda>c. c \<noteq> CHR ''='') part))))
      else readParts parts results)"
  by (simp add: Let_def indexOf_absent substring_key substring_value del: fun_upd_apply)



section \<open>The parameter string reader\<close>



section \<open>Reading the server messages\<close>

lemma or_false_None: "or_false v = None \<longleftrightarrow> \<not> truthy v"
  by (cases v) (auto simp: or_false_def truthy_def)

lemma split_error_and_verifier: "split ''e=x,v=y'' '','' = [''e=x'', ''v=y'']"
  by (simp add: split.simps)

lemma params_error_and_verifier:
  "readScramParamString ''e=x,v=y'' = [''e'' \<mapsto> ''x'', ''v'' \<mapsto> ''y'']"
  by (simp add: readScramParamString_def split_error_and_verifier indexOf_def substring_def
      substring_from_def trim_def isWhiteSpace_def)

text \<open>
  Claim C7, as the code has it: for every input string, constructing a
  \<open>ScramMessageServerFinal\<close> succeeds exactly when at least one of the parameters \<open>e\<close>
  and \<open>v\<close> is read with a non-empty value; a string in which both are absent fails.
\<close>

theorem C7_server_final_needs_error_or_verifier:
  "(\<exists>m. new_ScramMessageServerFinal message = Inr m)
     \<longleftrightarrow> (truthy (readScramParamString message ''e'')
          \<or> truthy (readScramParamString message ''v''))"
  by (auto simp: new_ScramMessageServerFinal_def Let_def or_false_None)

theorem C7_server_final_needs_error_or_verifier_witness:
  "\<exists>m. new_ScramMessageServerFinal ''e=invalid-proof'' = Inr m"
proof -
  have "truthy (readScramParamString ''e=invalid-proof'' ''e'')
          \<or> truthy (readScramParamString ''e=invalid-proof'' ''v'')"
    by code_simp
  then show ?thesis
    by (rule C7_server_final_needs_error_or_verifier [THEN iffD2])
qed

text \<open>
  Claim C7 as stated, with success exactly when exactly one of \<open>e\<close> and \<open>v\<close> is
  extractable, fails: the text \<open>e=x,v=y\<close> yields both and is accepted, with both fields
  set.
\<close>

theorem C7_both_present_counterexample:
  "truthy (readScramParamString ''e=x,v=y'' ''e'')
   \<and> truthy (readScramParamString ''e=x,v=y'' ''v'')
   \<and> new_ScramMessageServerFinal ''e=x,v=y''
       = Inr \<lparr>sfinal_message = ''e=x,v=y'', sfinal_error = Some ''x'',
               sfinal_verifier = Some ''y''\<rparr>"
  by (simp add: new_ScramMessageServerFinal_def params_error_and_verifier truthy_def or_false_def)




section \<open>The key derivations\<close>

text \<open>
  Claim C2 on the code: \<open>hmac\<close> takes the message first and the secret second, so
  \<open>getClientKey\<close> and \<open>getServerKey\<close> sign the salted password with the constant text as
  the key; the stored key is the hash of the client key. On the small instance, with
  the salted password \<open>[1]\<close>, the two keys differ from the HMAC keyed by the salted
  password over the constant text.
\<close>

theorem C2_hmac_keyed_by_second_argument:
  "getClientKey L a saltedPassword
     = subtle_sign L (algo_name a) (TextEncoder_encode ''Client Key'') saltedPassword
   \<and> getServerKey L a saltedPassword
     = subtle_sign L (algo_name a) (TextEncoder_encode ''Server Key'') saltedPassword
   \<and> getStoredKey L a saltedPassword
     = subtle_digest L (algo_name a) (getClientKey L a saltedPassword)
   \<and> getClientKey demo_libs demo_algo [1]
     \<noteq> subtle_sign demo_libs (algo_name demo_algo) [1] (TextEncoder_encode ''Client Key'')
   \<and> getServerKey demo_libs demo_algo [1]
     \<noteq> subtle_sign demo_libs (algo_name demo_algo) [1] (TextEncoder_encode ''Server Key'')"
  by (simp add: getClientKey_def getServerKey_def getStoredKey_def hmac_def hash_def demo_libs_def
      TextEncoder_encode_def utf8_unit_def)

section \<open>The salted password on the client\<close>

lemma demo_clientFirst_read:
  "new_ScramMessageClientFirst demo_libs ''n,,n=user,r=rOprNGfwEbeRWgbNEkqO'' = Inr demo_clientFirst"
  by code_simp

lemma demo_serverFirst_read:
  "new_ScramMessageServerFirst demo_libs
       ''r=rOprNGfwEbeRWgbNEkqO3rfcNHYJY1ZVvWVs7j,s=010203,i=4096''
     = Inr demo_serverFirst"
  by code_simp

text \<open>
  Claim C3 on the code: \<open>ScramRequestClient.getSaltedPassword\<close> does not prepare the
  password. For the password \<open>pass\<close>, soft hyphen, \<open>word\<close>, which preparation turns into
  \<open>password\<close>, the client derives from the text as given, while
  \<open>ScramAlgo.getSaltedPassword\<close> with the salt and iteration count of the
  server-first-message derives from \<open>password\<close>; the two results differ.
\<close>

theorem C3_client_skips_normalization:
  "fst (getSaltedPassword demo_libs demo_client (''pass'' @ [CHR 0xAD] @ ''word''))
     = Inr (pbkdf2 demo_libs demo_algo (TextEncoder_encode (''pass'' @ [CHR 0xAD] @ ''word''))
              (sfirst_salt demo_serverFirst) (sfirst_iterations demo_serverFirst))
   \<and> ScramAlgo_getSaltedPassword demo_libs demo_algo (''pass'' @ [CHR 0xAD] @ ''word'')
         (sfirst_salt demo_serverFirst) (sfirst_iterations demo_serverFirst)
     = Inr (pbkdf2 demo_libs demo_algo (TextEncoder_encode ''password'')
              (sfirst_salt demo_serverFirst) (sfirst_iterations demo_serverFirst))
   \<and> fst (getSaltedPassword demo_libs demo_client (''pass'' @ [CHR 0xAD] @ ''word''))
       \<noteq> ScramAlgo_getSaltedPassword demo_libs demo_algo (''pass'' @ [CHR 0xAD] @ ''word'')
           (sfirst_salt demo_serverFirst) (sfirst_iterations demo_serverFirst)"
  by code_simp



section \<open>Operations called too early\<close>

text \<open>
  Claim C9: each of the six operations of an exchange, called while one of the
  messages it requires is unset, throws the error that names the missing messages and
  leaves the exchange, and so its four message slots, as it was.
\<close>

theorem C9_missing_predecessor_throws:
  "(clientFirstMessage c = None \<or> serverFirstMessage c = None \<longrightarrow>
      getSaltedPassword L c password
        = (Inl (Error ''Unable to create salted password, missing client-first-message or server-first-message.''), c)
      \<and> createClientFinalMessage L c saltedPassword
        = (Inl (Error ''Unable to create client-final-message, missing client-first-message or server-first-message.''), c))
   \<and> (clientFirstMessage c = None \<or> serverFirstMessage c = None
        \<or> clientFinalMessage c = None \<or> serverFinalMessage c = None \<longrightarrow>
      verifyServerFinalMessage L c saltedPassword
        = (Inl (Error ''Unable to verify server-final-message, missing client-first-message, server-first-message, client-final-message or server-final-message.''), c))
   \<and> (clientFirstMessage s = None \<longrightarrow>
      createServerFirstMessage L s randomBuffer
        = (Inl (Error ''Unable to create server-first-message, missing client-first-message.''), s))
   \<and> (clientFirstMessage s = None \<or> serverFirstMessage s = None \<or> clientFinalMessage s = None \<longrightarrow>
      createServerFinalMessage L s
        = (Inl (Error ''Unable to create server-final-message, missing client-first-message, server-first-message, or client-final-message.''), s)
      \<and> verifyClientFinalMessage L s
        = (Inl (Error ''Unable to verify client-final-message, missing client-first-message, server-first-message, or client-final-message.''), s))"
proof (intro conjI impI)
  assume "clientFirstMessage c = None \<or> serverFirstMessage c = None"
  then show "getSaltedPassword L c password
        = (Inl (Error ''Unable to create salted password, missing client-first-message or server-first-message.''), c)"
    by (auto simp: getSaltedPassword_def split: option.splits)
next
  assume "clientFirstMessage c = None \<or> serverFirstMessage c = None"
  then show "createClientFinalMessage L c saltedPassword
        = (Inl (Error ''Unable to create client-final-message, missing client-first-message or server-first-message.''), c)"
    by (auto simp: createClientFinalMessage_def split: option.splits)
next
  assume "clientFirstMessage c = None \<or> serverFirstMessage c = None
        \<or> clientFinalMessage c = None \<or> serverFinalMessage c = None"
  then show "verifyServerFinalMessage L c saltedPassword
        = (Inl (Error ''Unable to verify server-final-message, missing client-first-message, server-first-message, client-final-message or server-final-message.''), c)"
    by (auto simp: verifyServerFinalMessage_def split: option.splits)
next
  assume "clientFirstMessage s = None"
  then show "createServerFirstMessage L s randomBuffer
        = (Inl (Error ''Unable to create server-first-message, missing client-first-message.''), s)"
    by (simp add: createServerFirstMessage_def)
next
  assume "clientFirstMessage s = None \<or> serverFirstMessage s = None \<or> clientFinalMessage s = None"
  then show "createServerFinalMessage L s
        = (Inl (Error ''Unable to create server-final-message, missing client-first-message, server-first-message, or client-final-message.''), s)"
    by (auto simp: createServerFinalMessage_def split: option.splits)
next
  assume "clientFirstMessage s = None \<or> serverFirstMessage s = None \<or> clientFinalMessage s = None"
  then show "verifyClientFinalMessage L s
        = (Inl (Error ''Unable to verify client-final-message, missing client-first-message, server-first-message, or client-final-message.''), s)"
    by (auto simp: verifyClientFinalMessage_def split: option.splits)
qed

theorem C9_missing_predecessor_throws_witness:
  "clientFirstMessage (new_ScramRequestClient demo_algo None) = None
   \<and> clientFirstMessage (new_ScramRequestServer demo_algo demo_users (\<lambda>u. [1]) 4096 None) = None
   \<and> getSaltedPassword demo_libs (new_ScramRequestClient demo_algo None) ''pencil''
        = (Inl (Error ''Unable to create salted password, missing client-first-message or server-first-message.''),
           new_ScramRequestClient demo_algo None)
   \<and> createClientFinalMessage demo_libs (new_ScramRequestClient demo_algo None) demo_saltedPassword
        = (Inl (Error ''Unable to create client-final-message, missing client-first-message or server-first-message.''),
           new_ScramRequestClient demo_algo None)
   \<and> verifyServerFinalMessage demo_libs (new_ScramRequestClient demo_algo None) demo_saltedPassword
        = (Inl (Error ''Unable to verify server-final-message, missing client-first-message, server-first-message, client-final-message or server-final-message.''),
           new_ScramRequestClient demo_algo None)
   \<and> createServerFirstMessage demo_libs
          (new_ScramRequestServer demo_algo demo_users (\<lambda>u. [1]) 4096 None) (replicate 24 7)
        = (Inl (Error ''Unable to create server-first-message, missing client-first-message.''),
           new_ScramRequestServer demo_algo demo_users (\<lambda>u. [1]) 4096 None)
   \<and> createServerFinalMessage demo_libs
          (new_ScramRequestServer demo_algo demo_users (\<lambda>u. [1]) 4096 None)
        = (Inl (Error ''Unable to create server-final-message, missing client-first-message, server-first-message, or client-final-message.''),
           new_ScramRequestServer demo_algo demo_users (\<lambda>u. [1]) 4096 None)
   \<and> verifyClientFinalMessage demo_libs
          (new_ScramRequestServer demo_algo demo_users (\<lambda>u. [1]) 4096 None)
        = (Inl (Error ''Unable to verify client-final-message, missing client-first-message, server-first-message, or client-final-message.''),
           new_ScramRequestServer demo_algo demo_users (\<lambda>u. [1]) 4096 None)"
  using C9_missing_predecessor_throws
          [where c = "new_ScramRequestClient demo_algo None"
             and s = "new_ScramRequestServer demo_algo demo_users (\<lambda>u. [1]) 4096 None"
             and L = demo_libs and password = "''pencil''"
             and saltedPassword = demo_saltedPassword and randomBuffer = "replicate 24 7"]
  by (simp add: new_ScramRequestClient_def new_ScramRequestServer_def)

section \<open>The server-final-message\<close>

lemma error_message_reads:
  assumes "code \<in> {SCRAM_EXTENSIONS_NOT_SUPPORTED, SCRAM_CHANNEL_BINDING_NOT_SUPPORTED,
                    SCRAM_UNKNOWN_USER, SCRAM_INVALID_PROOF, SCRAM_OTHER_ERROR, ''undefined''}"
  shows "new_ScramMessageServerFinal (''e='' @ code)
           = Inr \<lparr>sfinal_message = ''e='' @ code, sfinal_error = Some code, sfinal_verifier = None\<rparr>"
proof -
  have "new_ScramMessageServerFinal (''e='' @ SCRAM_EXTENSIONS_NOT_SUPPORTED)
          = Inr \<lparr>sfinal_message = ''e='' @ SCRAM_EXTENSIONS_NOT_SUPPORTED,
                  sfinal_error = Some SCRAM_EXTENSIONS_NOT_SUPPORTED, sfinal_verifier = None\<rparr>"
    by code_simp
  moreover have "new_ScramMessageServerFinal (''e='' @ SCRAM_CHANNEL_BINDING_NOT_SUPPORTED)
          = Inr \<lparr>sfinal_message = ''e='' @ SCRAM_CHANNEL_BINDING_NOT_SUPPORTED,
                  sfinal_error = Some SCRAM_CHANNEL_BINDING_NOT_SUPPORTED, sfinal_verifier = None\<rparr>"
    by code_simp
  moreover have "new_ScramMessageServerFinal (''e='' @ SCRAM_UNKNOWN_USER)
          = Inr \<lparr>sfinal_message = ''e='' @ SCRAM_UNKNOWN_USER,
                  sfinal_error = Some SCRAM_UNKNOWN_USER, sfinal_verifier = None\<rparr>"
    by code_simp
  moreover have "new_ScramMessageServerFinal (''e='' @ SCRAM_INVALID_PROOF)
          = Inr \<lparr>sfinal_message = ''e='' @ SCRAM_INVALID_PROOF,
                  sfinal_error = Some SCRAM_INVALID_PROOF, sfinal_verifier = None\<rparr>"
    by code_simp
  moreover have "new_ScramMessageServerFinal (''e='' @ SCRAM_OTHER_ERROR)
          = Inr \<lparr>sfinal_message = ''e='' @ SCRAM_OTHER_ERROR,
                  sfinal_error = Some SCRAM_OTHER_ERROR, sfinal_verifier = None\<rparr>"
    by code_simp
  moreover have "new_ScramMessageServerFinal (''e='' @ ''undefined'')
          = Inr \<lparr>sfinal_message = ''e='' @ ''undefined'',
                  sfinal_error = Some ''undefined'', sfinal_verifier = None\<rparr>"
    by code_simp
  ultimately show ?thesis using assms by blast
qed

lemma new_ScramMessageServerFinal_throws:
  "new_ScramMessageServerFinal message = Inl e \<Longrightarrow> e = Error ''Unable to read server-final-message''"
  by (auto simp: new_ScramMessageServerFinal_def Let_def split: if_splits)

lemma verifyClientFinalMessage_returns:
  assumes "clientFirstMessage s = Some cf" "serverFirstMessage s = Some sf" "clientFinalMessage s = Some cl"
  shows "\<exists>valid. verifyClientFinalMessage L s = (Inr valid, s)"
  using assms
  by (auto simp: verifyClientFinalMessage_def getAuthMessage_def repo_has_def repo_find_def Let_def
      split: option.splits)

lemma try_throws:
  assumes "clientFirstMessage s = Some cf" "serverFirstMessage s = Some sf" "clientFinalMessage s = Some cl"
    and "createServerFinalMessage_try L s cf cl = Inl e"
  shows "(truthy (cfirst_mext cf) \<and> e = ScramError SCRAM_EXTENSIONS_NOT_SUPPORTED)
       \<or> (\<not> truthy (cfirst_mext cf) \<and> cfirst_gs2CbindFlag cf \<noteq> ''n''
            \<and> e = ScramError SCRAM_CHANNEL_BINDING_NOT_SUPPORTED)
       \<or> (\<not> truthy (cfirst_mext cf) \<and> cfirst_gs2CbindFlag cf = ''n''
            \<and> \<not> repo_has (repo s) (cfirst_user cf) \<and> e = ScramError SCRAM_UNKNOWN_USER)
       \<or> (\<not> truthy (cfirst_mext cf) \<and> cfirst_gs2CbindFlag cf = ''n''
            \<and> repo_has (repo s) (cfirst_user cf)
            \<and> verifyClientFinalMessage L s = (Inr False, s) \<and> e = ScramError SCRAM_INVALID_PROOF)
       \<or> (\<not> truthy (cfirst_mext cf) \<and> cfirst_gs2CbindFlag cf = ''n''
            \<and> repo_has (repo s) (cfirst_user cf)
            \<and> verifyClientFinalMessage L s = (Inr True, s)
            \<and> e = Error ''Unable to read server-final-message'')"
proof -
  obtain valid where v: "verifyClientFinalMessage L s = (Inr valid, s)"
    using verifyClientFinalMessage_returns [OF assms(1-3)] by blast
  show ?thesis
    using assms v
    by (auto simp: createServerFinalMessage_try_def getAuthMessage_def repo_has_def repo_find_def
        Let_def split: option.splits if_splits dest: new_ScramMessageServerFinal_throws)
qed


lemma error_reply_built:
  assumes "errorCode_text e \<in> {SCRAM_EXTENSIONS_NOT_SUPPORTED, SCRAM_CHANNEL_BINDING_NOT_SUPPORTED,
                    SCRAM_UNKNOWN_USER, SCRAM_INVALID_PROOF, ''undefined''}"
  shows "new_ScramMessageServerFinal
           (if conceal then ''e='' @ SCRAM_OTHER_ERROR else ''e='' @ errorCode_text e)
         = Inr (error_reply conceal (errorCode_text e))"
proof (cases conceal)
  case True
  then show ?thesis
    using error_message_reads [of SCRAM_OTHER_ERROR] by (simp add: error_reply_def Let_def)
next
  case False
  have "errorCode_text e \<in> {SCRAM_EXTENSIONS_NOT_SUPPORTED,
          SCRAM_CHANNEL_BINDING_NOT_SUPPORTED, SCRAM_UNKNOWN_USER, SCRAM_INVALID_PROOF,
          SCRAM_OTHER_ERROR, ''undefined''}"
    using assms by blast
  from error_message_reads [OF this] False show ?thesis
    by (simp add: error_reply_def Let_def)
qed

text \<open>
  Claim C4: with client-first, server-first and client-final set,
  \<open>createServerFinalMessage\<close> does not throw; it returns and stores a
  server-final-message. If the client-first-message carries an extension, that message
  is the error reply for \<open>extensions-not-supported\<close>; else if the channel-binding flag
  is not \<open>n\<close>, for \<open>channel-binding-not-supported\<close>; else if the user is not in the
  repository, for \<open>unknown-user\<close>; else if the proof does not verify, for
  \<open>invalid-proof\<close>. The error reply has the text \<open>e=\<close> followed by the code, or by
  \<open>other-error\<close> when \<open>concealErrors\<close> is set.
\<close>

theorem C4_server_final_folds_errors:
  assumes "clientFirstMessage s = Some cf" and "serverFirstMessage s = Some sf"
    and "clientFinalMessage s = Some cl"
  shows "\<exists>m. createServerFinalMessage L s = (Inr m, s\<lparr>serverFinalMessage := Some m\<rparr>)
     \<and> (truthy (cfirst_mext cf) \<longrightarrow>
          m = error_reply (concealErrors s) SCRAM_EXTENSIONS_NOT_SUPPORTED)
     \<and> (\<not> truthy (cfirst_mext cf) \<and> cfirst_gs2CbindFlag cf \<noteq> ''n'' \<longrightarrow>
          m = error_reply (concealErrors s) SCRAM_CHANNEL_BINDING_NOT_SUPPORTED)
     \<and> (\<not> truthy (cfirst_mext cf) \<and> cfirst_gs2CbindFlag cf = ''n''
          \<and> \<not> repo_has (repo s) (cfirst_user cf) \<longrightarrow>
          m = error_reply (concealErrors s) SCRAM_UNKNOWN_USER)
     \<and> (\<not> truthy (cfirst_mext cf) \<and> cfirst_gs2CbindFlag cf = ''n''
          \<and> repo_has (repo s) (cfirst_user cf)
          \<and> verifyClientFinalMessage L s = (Inr False, s) \<longrightarrow>
          m = error_reply (concealErrors s) SCRAM_INVALID_PROOF)"
proof (cases "createServerFinalMessage_try L s cf cl")
  case (Inl e)
  note cases = try_throws [OF assms Inl]
  then have code: "errorCode_text e \<in> {SCRAM_EXTENSIONS_NOT_SUPPORTED,
      SCRAM_CHANNEL_BINDING_NOT_SUPPORTED, SCRAM_UNKNOWN_USER, SCRAM_INVALID_PROOF, ''undefined''}"
    by (auto simp: errorCode_text_def)
  have "createServerFinalMessage L s
          = (Inr (error_reply (concealErrors s) (errorCode_text e)),
             s\<lparr>serverFinalMessage := Some (error_reply (concealErrors s) (errorCode_text e))\<rparr>)"
    using assms Inl error_reply_built [OF code, of "concealErrors s"]
    by (simp add: createServerFinalMessage_def)
  moreover have "truthy (cfirst_mext cf) \<longrightarrow> errorCode_text e = SCRAM_EXTENSIONS_NOT_SUPPORTED"
    using cases by (auto simp: errorCode_text_def)
  moreover have "\<not> truthy (cfirst_mext cf) \<and> cfirst_gs2CbindFlag cf \<noteq> ''n'' \<longrightarrow>
                   errorCode_text e = SCRAM_CHANNEL_BINDING_NOT_SUPPORTED"
    using cases by (auto simp: errorCode_text_def)
  moreover have "\<not> truthy (cfirst_mext cf) \<and> cfirst_gs2CbindFlag cf = ''n''
          \<and> \<not> repo_has (repo s) (cfirst_user cf) \<longrightarrow> errorCode_text e = SCRAM_UNKNOWN_USER"
    using cases by (auto simp: errorCode_text_def)
  moreover have "\<not> truthy (cfirst_mext cf) \<and> cfirst_gs2CbindFlag cf = ''n''
          \<and> repo_has (repo s) (cfirst_user cf) \<and> verifyClientFinalMessage L s = (Inr False, s)
          \<longrightarrow> errorCode_text e = SCRAM_INVALID_PROOF"
    using cases by (auto simp: errorCode_text_def)
  ultimately show ?thesis by simp
next
  case (Inr m)
  have created: "createServerFinalMessage L s = (Inr m, s\<lparr>serverFinalMessage := Some m\<rparr>)"
    using assms Inr by (simp add: createServerFinalMessage_def)
  have passed: "\<not> truthy (cfirst_mext cf) \<and> cfirst_gs2CbindFlag cf = ''n''
      \<and> repo_has (repo s) (cfirst_user cf) \<and> verifyClientFinalMessage L s \<noteq> (Inr False, s)"
    using assms Inr
    by (auto simp: createServerFinalMessage_try_def repo_has_def repo_find_def Let_def
        split: if_splits option.splits sum.splits)
  from created passed show ?thesis by simp
qed


lemma demo_server_slots:
  "clientFirstMessage demo_server = Some demo_clientFirst"
  "serverFirstMessage demo_server = Some demo_serverFirst"
  "clientFinalMessage demo_server = Some demo_clientFinal"
  "concealErrors demo_server = False"
  by (simp_all add: demo_server_def setClientFirstMessage_def setServerFirstMessage_def
      setClientFinalMessage_def new_ScramRequestServer_def DEFAULT_CONFIG_concealErrors_def)

lemma demo_user_known: "repo_has (repo demo_server) ''user''" "\<not> repo_has (repo demo_server) ''nobody''"
  by (simp_all add: demo_server_def setClientFirstMessage_def setServerFirstMessage_def
      setClientFinalMessage_def new_ScramRequestServer_def repo_has_def demo_users_def
      repo_addUser_def)

theorem C4_server_final_folds_errors_witness:
  "fst (createServerFinalMessage demo_libs
          (demo_server\<lparr>clientFirstMessage := Some (demo_clientFirst\<lparr>cfirst_mext := Some ''invalid''\<rparr>)\<rparr>))
     = Inr (error_reply False SCRAM_EXTENSIONS_NOT_SUPPORTED)
   \<and> fst (createServerFinalMessage demo_libs
          (demo_server\<lparr>clientFirstMessage := Some (demo_clientFirst\<lparr>cfirst_gs2CbindFlag := ''y''\<rparr>)\<rparr>))
     = Inr (error_reply False SCRAM_CHANNEL_BINDING_NOT_SUPPORTED)
   \<and> fst (createServerFinalMessage demo_libs
          (demo_server\<lparr>clientFirstMessage := Some (demo_clientFirst\<lparr>cfirst_user := ''nobody''\<rparr>)\<rparr>))
     = Inr (error_reply False SCRAM_UNKNOWN_USER)
   \<and> fst (createServerFinalMessage demo_libs
          (demo_server\<lparr>clientFinalMessage := Some (demo_clientFinal\<lparr>cfinal_clientProof := ''0000''\<rparr>)\<rparr>))
     = Inr (error_reply False SCRAM_INVALID_PROOF)
   \<and> fst (createServerFinalMessage demo_libs
          (demo_server\<lparr>clientFinalMessage := Some (demo_clientFinal\<lparr>cfinal_clientProof := ''0000''\<rparr>),
                       concealErrors := True\<rparr>))
     = Inr (error_reply True SCRAM_INVALID_PROOF)"
proof -
  let ?s1 = "demo_server\<lparr>clientFirstMessage := Some (demo_clientFirst\<lparr>cfirst_mext := Some ''invalid''\<rparr>)\<rparr>"
  let ?s2 = "demo_server\<lparr>clientFirstMessage := Some (demo_clientFirst\<lparr>cfirst_gs2CbindFlag := ''y''\<rparr>)\<rparr>"
  let ?s3 = "demo_server\<lparr>clientFirstMessage := Some (demo_clientFirst\<lparr>cfirst_user := ''nobody''\<rparr>)\<rparr>"
  let ?s4 = "demo_server\<lparr>clientFinalMessage := Some (demo_clientFinal\<lparr>cfinal_clientProof := ''0000''\<rparr>)\<rparr>"
  let ?s5 = "?s4\<lparr>concealErrors := True\<rparr>"
  have "fst (createServerFinalMessage demo_libs ?s1)
          = Inr (error_reply False SCRAM_EXTENSIONS_NOT_SUPPORTED)"
    using C4_server_final_folds_errors [where s = ?s1 and L = demo_libs
        and cf = "demo_clientFirst\<lparr>cfirst_mext := Some ''invalid''\<rparr>"
        and sf = demo_serverFirst and cl = demo_clientFinal]
    by (auto simp: demo_server_slots truthy_def)
  moreover have "fst (createServerFinalMessage demo_libs ?s2)
          = Inr (error_reply False SCRAM_CHANNEL_BINDING_NOT_SUPPORTED)"
    using C4_server_final_folds_errors [where s = ?s2 and L = demo_libs
        and cf = "demo_clientFirst\<lparr>cfirst_gs2CbindFlag := ''y''\<rparr>"
        and sf = demo_serverFirst and cl = demo_clientFinal]
    by (auto simp: demo_server_slots truthy_def demo_clientFirst_def)
  moreover have "fst (createServerFinalMessage demo_libs ?s3)
          = Inr (error_reply False SCRAM_UNKNOWN_USER)"
    using C4_server_final_folds_errors [where s = ?s3 and L = demo_libs
        and cf = "demo_clientFirst\<lparr>cfirst_user := ''nobody''\<rparr>"
        and sf = demo_serverFirst and cl = demo_clientFinal]
    by (auto simp: demo_server_slots truthy_def demo_clientFirst_def demo_user_known)
  moreover have v4: "fst (verifyClientFinalMessage demo_libs ?s4) = Inr False"
    by code_simp
  moreover have v5: "fst (verifyClientFinalMessage demo_libs ?s5) = Inr False"
    by code_simp
  moreover have "fst (createServerFinalMessage demo_libs ?s4)
          = Inr (error_reply False SCRAM_INVALID_PROOF)"
    using C4_server_final_folds_errors [where s = ?s4 and L = demo_libs and cf = demo_clientFirst
        and sf = demo_serverFirst
        and cl = "demo_clientFinal\<lparr>cfinal_clientProof := ''0000''\<rparr>"]
      verifyClientFinalMessage_returns [where s = ?s4 and L = demo_libs and cf = demo_clientFirst
        and sf = demo_serverFirst
        and cl = "demo_clientFinal\<lparr>cfinal_clientProof := ''0000''\<rparr>"] v4
    by (auto simp: demo_server_slots truthy_def demo_clientFirst_def demo_user_known)
  moreover have "fst (createServerFinalMessage demo_libs ?s5)
          = Inr (error_reply True SCRAM_INVALID_PROOF)"
    using C4_server_final_folds_errors [where s = ?s5 and L = demo_libs and cf = demo_clientFirst
        and sf = demo_serverFirst
        and cl = "demo_clientFinal\<lparr>cfinal_clientProof := ''0000''\<rparr>"]
      verifyClientFinalMessage_returns [where s = ?s5 and L = demo_libs and cf = demo_clientFirst
        and sf = demo_serverFirst
        and cl = "demo_clientFinal\<lparr>cfinal_clientProof := ''0000''\<rparr>"] v5
    by (auto simp: demo_server_slots truthy_def demo_clientFirst_def demo_user_known)
  ultimately show ?thesis by simp
qed

section \<open>Nonces in the verifications\<close>

lemma verifyClientFinalMessage_ignores_nonces:
  "fst (verifyClientFinalMessage L
          (s\<lparr>clientFirstMessage := map_option (\<lambda>m. m\<lparr>cfirst_nonce := n1\<rparr>) (clientFirstMessage s),
             serverFirstMessage := map_option (\<lambda>m. m\<lparr>sfirst_nonce := n2\<rparr>) (serverFirstMessage s),
             clientFinalMessage := map_option (\<lambda>m. m\<lparr>cfinal_nonce := n3\<rparr>) (clientFinalMessage s)\<rparr>))
     = fst (verifyClientFinalMessage L s)"
  by (cases "clientFirstMessage s"; cases "serverFirstMessage s"; cases "clientFinalMessage s")
     (simp_all add: verifyClientFinalMessage_def getAuthMessage_def Let_def split: sum.splits)

lemma verifyServerFinalMessage_ignores_nonces:
  "fst (verifyServerFinalMessage L
          (c\<lparr>clientFirstMessage := map_option (\<lambda>m. m\<lparr>cfirst_nonce := n1\<rparr>) (clientFirstMessage c),
             serverFirstMessage := map_option (\<lambda>m. m\<lparr>sfirst_nonce := n2\<rparr>) (serverFirstMessage c),
             clientFinalMessage := map_option (\<lambda>m. m\<lparr>cfinal_nonce := n3\<rparr>) (clientFinalMessage c)\<rparr>)
          saltedPassword)
     = fst (verifyServerFinalMessage L c saltedPassword)"
  by (cases "clientFirstMessage c"; cases "serverFirstMessage c"; cases "clientFinalMessage c";
      cases "serverFinalMessage c")
     (simp_all add: verifyServerFinalMessage_def getAuthMessage_def Let_def split: sum.splits)

lemma other_nonce_accepted_by_server:
  "(case new_ScramMessageClientFinal ''c=6e2c2c,r=another-nonce,p=b6aa'' of
      Inl e \<Rightarrow> False
    | Inr clientFinal \<Rightarrow>
        cfinal_nonce clientFinal \<noteq> sfirst_nonce demo_serverFirst
        \<and> fst (verifyClientFinalMessage demo_libs (setClientFinalMessage demo_server clientFinal))
            = Inr True)"
  by code_simp

lemma foreign_nonce_accepted_by_client:
  "(case (new_ScramMessageServerFirst demo_libs ''r=3rfcNHYJY1ZVvWVs7j,s=010203,i=4096'',
          new_ScramMessageClientFinal ''c=6e2c2c,r=3rfcNHYJY1ZVvWVs7j,p=1caa'',
          new_ScramMessageServerFinal ''v=b441'') of
      (Inr serverFirst, Inr clientFinal, Inr serverFinal) \<Rightarrow>
        \<not> prefix (cfirst_nonce demo_clientFirst) (sfirst_nonce serverFirst)
        \<and> fst (verifyServerFinalMessage demo_libs
                 (setServerFinalMessage
                    (setClientFinalMessage
                       (setServerFirstMessage
                          (setClientFirstMessage (new_ScramRequestClient demo_algo None)
                             demo_clientFirst)
                          serverFirst)
                       clientFinal)
                    serverFinal)
                 demo_saltedPassword)
            = Inr True
    | _ \<Rightarrow> False)"
  by code_simp

text \<open>
  Claim C10: neither verification compares nonces. The verdict of
  \<open>verifyClientFinalMessage\<close>, and that of \<open>verifyServerFinalMessage\<close>, is the same
  whatever the nonce fields of the client-first, server-first and client-final
  messages hold. On the small instance, the server accepts a client-final-message
  whose nonce \<open>another-nonce\<close> is not the nonce of the server-first-message, its proof
  being computed over the messages as received; and the client accepts the verifier of
  an exchange whose server-first nonce does not begin with the client nonce.
\<close>

theorem C10_verification_ignores_nonces:
  "fst (verifyClientFinalMessage L
          (s\<lparr>clientFirstMessage := map_option (\<lambda>m. m\<lparr>cfirst_nonce := n1\<rparr>) (clientFirstMessage s),
             serverFirstMessage := map_option (\<lambda>m. m\<lparr>sfirst_nonce := n2\<rparr>) (serverFirstMessage s),
             clientFinalMessage := map_option (\<lambda>m. m\<lparr>cfinal_nonce := n3\<rparr>) (clientFinalMessage s)\<rparr>))
     = fst (verifyClientFinalMessage L s)
   \<and> fst (verifyServerFinalMessage L
          (c\<lparr>clientFirstMessage := map_option (\<lambda>m. m\<lparr>cfirst_nonce := n1\<rparr>) (clientFirstMessage c),
             serverFirstMessage := map_option (\<lambda>m. m\<lparr>sfirst_nonce := n2\<rparr>) (serverFirstMessage c),
             clientFinalMessage := map_option (\<lambda>m. m\<lparr>cfinal_nonce := n3\<rparr>) (clientFinalMessage c)\<rparr>)
          saltedPassword)
     = fst (verifyServerFinalMessage L c saltedPassword)
   \<and> (case new_ScramMessageClientFinal ''c=6e2c2c,r=another-nonce,p=b6aa'' of
        Inl e \<Rightarrow> False
      | Inr clientFinal \<Rightarrow>
          cfinal_nonce clientFinal \<noteq> sfirst_nonce demo_serverFirst
          \<and> fst (verifyClientFinalMessage demo_libs (setClientFinalMessage demo_server clientFinal))
              = Inr True)
   \<and> (case (new_ScramMessageServerFirst demo_libs ''r=3rfcNHYJY1ZVvWVs7j,s=010203,i=4096'',
            new_ScramMessageClientFinal ''c=6e2c2c,r=3rfcNHYJY1ZVvWVs7j,p=1caa'',
            new_ScramMessageServerFinal ''v=b441'') of
        (Inr serverFirst, Inr clientFinal, Inr serverFinal) \<Rightarrow>
          \<not> prefix (cfirst_nonce demo_clientFirst) (sfirst_nonce serverFirst)
          \<and> fst (verifyServerFinalMessage demo_libs
                   (setServerFinalMessage
                      (setClientFinalMessage
                         (setServerFirstMessage
                            (setClientFirstMessage (new_ScramRequestClient demo_algo None)
                               demo_clientFirst)
                            serverFirst)
                         clientFinal)
                      serverFinal)
                   demo_saltedPassword)
              = Inr True
      | _ \<Rightarrow> False)"
  by (intro conjI verifyClientFinalMessage_ignores_nonces verifyServerFinalMessage_ignores_nonces
      other_nonce_accepted_by_server foreign_nonce_accepted_by_client)

theorem C10_verification_ignores_nonces_witness:
  "fst (verifyClientFinalMessage demo_libs
          (demo_server\<lparr>clientFirstMessage := Some (demo_clientFirst\<lparr>cfirst_nonce := ''x''\<rparr>),
                       serverFirstMessage := Some (demo_serverFirst\<lparr>sfirst_nonce := ''y''\<rparr>),
                       clientFinalMessage := Some (demo_clientFinal\<lparr>cfinal_nonce := ''z''\<rparr>)\<rparr>))
     = Inr True"
proof -
  have "fst (verifyClientFinalMessage demo_libs demo_server) = Inr True"
    by code_simp
  then show ?thesis
    using C10_verification_ignores_nonces [where s = demo_server and L = demo_libs
        and ?n1.0 = "''x''" and ?n2.0 = "''y''" and ?n3.0 = "''z''"]
    by (simp add: demo_server_slots)
qed

section \<open>The standard exchange\<close>

lemma trim_token: "token s \<Longrightarrow> trim s = s"
proof -
  assume t: "token s"
  then have "dropWhile isWhiteSpace s = s"
    by (simp add: token_def dropWhile_eq_self_iff)
  moreover from t have "dropWhile isWhiteSpace (rev s) = rev s"
    by (simp add: token_def dropWhile_eq_self_iff hd_rev)
  ultimately show ?thesis by (simp add: trim_def)
qed

lemma token_append: "token a \<Longrightarrow> token b \<Longrightarrow> token (a @ b)"
  by (simp add: token_def)

lemma token_truthy: "token s \<Longrightarrow> truthy (Some s)"
  by (simp add: token_def truthy_def)

lemma split_Nil: "sep \<noteq> [] \<Longrightarrow> split [] sep = [[]]"
  by (simp add: split.simps)

lemma split_Cons:
  "sep \<noteq> [] \<Longrightarrow> split (x # xs) sep =
     (if prefix sep (x # xs) then [] # split (drop (length sep) (x # xs)) sep
      else (case split xs sep of [] \<Rightarrow> [[x]] | piece # pieces \<Rightarrow> (x # piece) # pieces))"
  by (subst split.simps) (simp split: list.splits)

lemma split_skip:
  assumes "sep \<noteq> []" and "hd sep \<notin> set a" and "split rest sep = piece # pieces"
  shows "split (a @ rest) sep = (a @ piece) # pieces"
  using assms
proof (induction a)
  case Nil
  then show ?case by simp
next
  case (Cons x a)
  then have "\<not> prefix sep (x # a @ rest)"
    by (cases sep) auto
  with Cons show ?case by (simp add: split_Cons)
qed

lemma split_none:
  assumes "sep \<noteq> []" and "hd sep \<notin> set a"
  shows "split a sep = [a]"
  using split_skip [OF assms, of "[]" "[]" "[]"] assms(1) by (simp add: split_Nil)

lemma split_at_sep: "sep \<noteq> [] \<Longrightarrow> split (sep @ rest) sep = [] # split rest sep"
  by (cases sep) (simp_all add: split_Cons)

lemma split_comma:
  assumes "CHR '','' \<notin> set a"
  shows "split (a @ CHR '','' # rest) '','' = a # split rest '',''"
proof -
  have "split (CHR '','' # rest) '','' = [] # split rest '',''"
    using split_at_sep [of "'',''" rest] by simp
  from split_skip [OF _ _ this, of a] assms show ?thesis by simp
qed

lemma split_comma_last: "CHR '','' \<notin> set a \<Longrightarrow> split a '','' = [a]"
  by (rule split_none) simp_all


lemma takeWhile_until: "c \<notin> set k \<Longrightarrow> takeWhile (\<lambda>x. x \<noteq> c) (k @ c # v) = k"
  by (induction k) auto

lemma dropWhile_until: "c \<notin> set k \<Longrightarrow> dropWhile (\<lambda>x. x \<noteq> c) (k @ c # v) = c # v"
  by (induction k) auto

lemma readParts_pair:
  assumes "CHR ''='' \<notin> set k"
  shows "readParts ((k @ CHR ''='' # v) # parts) results
           = readParts parts (results(trim k \<mapsto> trim v))"
  using assms
  by (simp add: readParts_step takeWhile_until dropWhile_until del: readParts.simps fun_upd_apply)

lemma readParts_skip:
  "CHR ''='' \<notin> set part \<Longrightarrow> readParts (part # parts) results = readParts parts results"
  by (simp add: readParts_step del: readParts.simps)

lemma xor_recover:
  "length key = length signature \<Longrightarrow>
     xorArrayBuffer signature (xorArrayBuffer key signature) = key"
  by (induction key signature rule: list_induct2) (simp_all add: xor.commute xor.left_commute)

lemma xor_nonempty: "key \<noteq> [] \<Longrightarrow> xorArrayBuffer key signature \<noteq> []"
  by (cases key; cases signature) simp_all

lemma digitChar_decimal: "d < 10 \<Longrightarrow> decimal_digit (digitChar d)"
proof -
  assume "d < 10"
  then have "d \<in> {0, 1, 2, 3, 4, 5, 6, 7, 8, 9}" by auto
  then show ?thesis
    by (elim insertE) (simp_all add: digitChar_def decimal_digit_def char_of_eq_iff)
qed

lemma digitValue_digitChar: "d < 10 \<Longrightarrow> digitValue (digitChar d) = Some d"
proof -
  assume "d < 10"
  then have "d \<in> {0, 1, 2, 3, 4, 5, 6, 7, 8, 9}" by auto
  then show ?thesis
    by (elim insertE) (simp_all add: digitChar_def digitValue_def of_char_of)
qed

lemma decimal_digit_facts:
  assumes "decimal_digit c"
  shows "\<not> isWhiteSpace c" "c \<noteq> CHR '',''" "c \<noteq> CHR ''-''" "c \<noteq> CHR ''+''"
    "c \<noteq> CHR ''x''" "c \<noteq> CHR ''X''" "c \<noteq> CHR ''=''" "isDigit 10 c"
  using assms
  by (auto simp: decimal_digit_def isWhiteSpace_def isDigit_def digitValue_def)

lemma decimal_nonempty: "decimal n \<noteq> []"
  by (subst decimal.simps) simp

lemma decimal_digits: "c \<in> set (decimal n) \<Longrightarrow> decimal_digit c"
proof (induction n arbitrary: c rule: decimal.induct)
  case (1 n)
  show ?case
  proof (cases "n < 10")
    case True
    with "1.prems" show ?thesis
      by (subst (asm) decimal.simps) (simp add: digitChar_decimal)
  next
    case False
    with "1.prems" have "c \<in> set (decimal (n div 10)) \<or> c = digitChar (n mod 10)"
      by (subst (asm) decimal.simps) auto
    with False "1.IH" show ?thesis
      by (auto simp: digitChar_decimal)
  qed
qed

lemma digitsValue_snoc:
  "digitsValue radix (z @ [c])
     = digitsValue radix z * radix + (case digitValue c of None \<Rightarrow> 0 | Some d \<Rightarrow> d)"
  by (simp add: digitsValue_def)

lemma digitsValue_decimal: "digitsValue 10 (decimal n) = n"
proof (induction n rule: decimal.induct)
  case (1 n)
  show ?case
  proof (cases "n < 10")
    case True
    then show ?thesis
      by (subst decimal.simps) (simp add: digitsValue_def digitValue_digitChar)
  next
    case False
    with "1.IH" show ?thesis
      by (subst decimal.simps) (simp add: digitsValue_snoc digitValue_digitChar)
  qed
qed

lemma parseInt_digits:
  assumes "s \<noteq> []" and "\<forall>c\<in>set s. decimal_digit c"
  shows "parseInt s = Some (int (digitsValue 10 s))"
proof -
  obtain c rest where s: "s = c # rest" using assms(1) by (cases s) auto
  with assms(2) have c: "decimal_digit c" by simp
  have ws: "dropWhile isWhiteSpace s = s"
    using s decimal_digit_facts(1) [OF c] by simp
  have sign: "take (Suc 0) s \<noteq> ''-''" "take (Suc 0) s \<noteq> ''+''"
    using s decimal_digit_facts(3,4) [OF c] by simp_all
  have hex: "take 2 s \<noteq> ''0x''" "take 2 s \<noteq> ''0X''"
  proof -
    show "take 2 s \<noteq> ''0x''"
    proof (cases rest)
      case Nil
      with s show ?thesis by simp
    next
      case (Cons d rest')
      with s assms(2) have "decimal_digit d" by simp
      from decimal_digit_facts(5) [OF this] s Cons show ?thesis by simp
    qed
    show "take 2 s \<noteq> ''0X''"
    proof (cases rest)
      case Nil
      with s show ?thesis by simp
    next
      case (Cons d rest')
      with s assms(2) have "decimal_digit d" by simp
      from decimal_digit_facts(6) [OF this] s Cons show ?thesis by simp
    qed
  qed
  have run: "takeWhile (isDigit 10) s = s"
    using assms(2) decimal_digit_facts(8) by (simp add: takeWhile_eq_all_conv)
  show ?thesis
    using assms(1) by (simp add: parseInt_def Let_def ws sign hex run)
qed

lemma parseInt_decimal: "parseInt (decimal n) = Some (int n)"
  using parseInt_digits [of "decimal n"] decimal_nonempty decimal_digits
  by (simp add: digitsValue_decimal)

lemma token_decimal: "token (decimal n)"
proof -
  have "decimal n \<noteq> []" by (rule decimal_nonempty)
  moreover have "CHR '','' \<notin> set (decimal n)"
    using decimal_digits decimal_digit_facts(2) by blast
  moreover have "\<not> isWhiteSpace (hd (decimal n))" "\<not> isWhiteSpace (last (decimal n))"
    using decimal_digits [of _ n] decimal_digit_facts(1) decimal_nonempty [of n]
    by (meson hd_in_set last_in_set)+
  ultimately show ?thesis by (simp add: token_def)
qed

lemma token_no_comma: "token s \<Longrightarrow> CHR '','' \<notin> set s"
  by (simp add: token_def)

lemma trim_letter: "trim ''n'' = ''n''" "trim ''r'' = ''r''" "trim ''s'' = ''s''"
  "trim ''i'' = ''i''" "trim ''c'' = ''c''" "trim ''v'' = ''v''"
  by (simp_all add: trim_def isWhiteSpace_def)

lemma readParts_letter:
  "k \<noteq> CHR ''='' \<Longrightarrow>
     readParts ((k # CHR ''='' # v) # parts) results = readParts parts (results(trim [k] \<mapsto> trim v))"
  using readParts_pair [of "[k]" v parts results] by simp

lemma clientFirst_params:
  assumes "token user" and "token nonce"
  shows "readScramParamString (''n,'' @ '',n='' @ user @ '',r='' @ nonce)
           = [''n'' \<mapsto> user, ''r'' \<mapsto> nonce]"
proof -
  have "split (''r='' @ nonce) '','' = [''r='' @ nonce]"
    using assms(2) by (intro split_comma_last) (simp add: token_def)
  then have "split ((''n='' @ user) @ CHR '','' # ''r='' @ nonce) '',''
               = [''n='' @ user, ''r='' @ nonce]"
    using assms(1) by (subst split_comma) (simp_all add: token_def)
  then have "split ([] @ CHR '','' # (''n='' @ user) @ CHR '','' # ''r='' @ nonce) '',''
               = [[], ''n='' @ user, ''r='' @ nonce]"
    by (subst split_comma) simp_all
  then have "split (''n'' @ CHR '','' # [] @ CHR '','' # (''n='' @ user) @ CHR '','' # ''r='' @ nonce) '',''
               = [''n'', [], ''n='' @ user, ''r='' @ nonce]"
    by (subst split_comma) simp_all
  then have parts: "split (''n,'' @ '',n='' @ user @ '',r='' @ nonce) '',''
               = [''n'', [], ''n'' @ CHR ''='' # user, ''r'' @ CHR ''='' # nonce]"
    by simp
  show ?thesis
    unfolding readScramParamString_def parts
    using assms
    by (simp add: readParts_skip readParts_letter trim_letter trim_token del: readParts.simps(2))
qed

lemma clientFirst_reads:
  assumes "token user" and "token nonce" and "saslPrep L user = Inr u" and "u \<noteq> []"
  shows "new_ScramMessageClientFirst L (''n,'' @ '',n='' @ user @ '',r='' @ nonce)
           = Inr \<lparr>cfirst_message = ''n,,n='' @ user @ '',r='' @ nonce,
                   cfirst_messageBare = ''n='' @ user @ '',r='' @ nonce,
                   cfirst_user = u, cfirst_gs2CbindFlag = ''n'',
                   cfirst_nonce = nonce, cfirst_mext = None\<rparr>"
proof -
  let ?m = "''n,'' @ '',n='' @ user @ '',r='' @ nonce"
  have idx: "nat (indexOf ?m (CHR '','') (nat (indexOf ?m (CHR '','') 0 + 1)) + 1) = 3"
    by (simp add: indexOf_def)
  have flag: "element (split (substring ?m 0 3) '','') 0 = Some ''n''"
    by (simp add: substring_def split.simps element_def)
  have bare: "substring_from ?m 3 = ''n='' @ user @ '',r='' @ nonce"
    by (simp add: substring_from_def)
  show ?thesis
    unfolding new_ScramMessageClientFirst_def Let_def idx flag bare
      clientFirst_params [OF assms(1,2)]
    using assms by (simp add: truthy_def strval_def token_def)
qed

lemma serverFirst_params:
  assumes "token nonce" and "token salt64" and "token count"
  shows "readScramParamString (''r='' @ nonce @ '',s='' @ salt64 @ '',i='' @ count)
           = [''r'' \<mapsto> nonce, ''s'' \<mapsto> salt64, ''i'' \<mapsto> count]"
proof -
  have "split (''i='' @ count) '','' = [''i='' @ count]"
    using assms(3) by (intro split_comma_last) (simp add: token_def)
  then have "split ((''s='' @ salt64) @ CHR '','' # ''i='' @ count) '',''
               = [''s='' @ salt64, ''i='' @ count]"
    using assms(2) by (subst split_comma) (simp_all add: token_def)
  then have "split ((''r='' @ nonce) @ CHR '','' # (''s='' @ salt64) @ CHR '','' # ''i='' @ count) '',''
               = [''r='' @ nonce, ''s='' @ salt64, ''i='' @ count]"
    using assms(1) by (subst split_comma) (simp_all add: token_def)
  then have parts: "split (''r='' @ nonce @ '',s='' @ salt64 @ '',i='' @ count) '',''
               = [''r'' @ CHR ''='' # nonce, ''s'' @ CHR ''='' # salt64, ''i'' @ CHR ''='' # count]"
    by simp
  show ?thesis
    unfolding readScramParamString_def parts
    using assms
    by (simp add: readParts_letter trim_letter trim_token del: readParts.simps(2))
qed

lemma serverFirst_reads:
  assumes "token nonce" and "token salt64" and "0 \<le> n"
  shows "new_ScramMessageServerFirst L
           (''r='' @ nonce @ '',s='' @ salt64 @ '',i='' @ Number_toString n)
           = Inr \<lparr>sfirst_message = ''r='' @ nonce @ '',s='' @ salt64 @ '',i='' @ Number_toString n,
                   sfirst_nonce = nonce, sfirst_salt = Base64_toUint8Array L salt64,
                   sfirst_iterations = n\<rparr>"
proof -
  have count: "Number_toString n = decimal (nat n)"
    using assms(3) by (simp add: Number_toString_def)
  have tok: "token (Number_toString n)"
    unfolding count by (rule token_decimal)
  have parsed: "parseInt (Number_toString n) = Some n"
    unfolding count using assms(3) by (simp add: parseInt_decimal)
  show ?thesis
    unfolding new_ScramMessageServerFirst_def Let_def serverFirst_params [OF assms(1,2) tok]
    using assms(1,2) tok parsed by (simp add: truthy_def strval_def token_def)
qed

lemma clientFinal_split:
  assumes "token g" and "token nonce" and "token proof"
  shows "split ((''c='' @ g @ '',r='' @ nonce) @ '',p='' @ proof) '',p=''
           = [''c='' @ g @ '',r='' @ nonce, proof]"
proof -
  have "split proof '',p='' = [proof]"
    using assms(3) by (intro split_none) (simp_all add: token_def)
  then have "split ('',p='' @ proof) '',p='' = [[], proof]"
    by (subst split_at_sep) simp_all
  then have "split ((''r='' @ nonce) @ '',p='' @ proof) '',p='' = [''r='' @ nonce, proof]"
    using assms(2) by (subst split_skip [where piece = "[]" and pieces = "[proof]"])
      (simp_all add: token_def)
  then have "split (CHR '','' # (''r='' @ nonce) @ '',p='' @ proof) '',p=''
               = ['','' @ ''r='' @ nonce, proof]"
    by (subst split_Cons) simp_all
  then have "split ((''c='' @ g) @ CHR '','' # (''r='' @ nonce) @ '',p='' @ proof) '',p=''
               = [(''c='' @ g) @ '','' @ ''r='' @ nonce, proof]"
    using assms(1)
    by (subst split_skip [where piece = "'','' @ ''r='' @ nonce" and pieces = "[proof]"])
      (simp_all add: token_def)
  then show ?thesis by simp
qed

lemma clientFinal_params:
  assumes "token g" and "token nonce"
  shows "readScramParamString (''c='' @ g @ '',r='' @ nonce) = [''c'' \<mapsto> g, ''r'' \<mapsto> nonce]"
proof -
  have "split (''r='' @ nonce) '','' = [''r='' @ nonce]"
    using assms(2) by (intro split_comma_last) (simp add: token_def)
  then have "split ((''c='' @ g) @ CHR '','' # ''r='' @ nonce) '',''
               = [''c='' @ g, ''r='' @ nonce]"
    using assms(1) by (subst split_comma) (simp_all add: token_def)
  then have parts: "split (''c='' @ g @ '',r='' @ nonce) '',''
               = [''c'' @ CHR ''='' # g, ''r'' @ CHR ''='' # nonce]"
    by simp
  show ?thesis
    unfolding readScramParamString_def parts
    using assms
    by (simp add: readParts_letter trim_letter trim_token del: readParts.simps(2))
qed

lemma clientFinal_reads:
  assumes "token g" and "token nonce" and "token proof"
  shows "new_ScramMessageClientFinal ((''c='' @ g @ '',r='' @ nonce) @ '',p='' @ proof)
           = Inr \<lparr>cfinal_message = (''c='' @ g @ '',r='' @ nonce) @ '',p='' @ proof,
                   cfinal_messageWithoutProof = ''c='' @ g @ '',r='' @ nonce,
                   cfinal_gs2Header = g, cfinal_nonce = nonce, cfinal_clientProof = proof\<rparr>"
proof -
  have first: "strval (element [''c='' @ g @ '',r='' @ nonce, proof] 0) = ''c='' @ g @ '',r='' @ nonce"
    by (simp add: element_def strval_def)
  show ?thesis
    unfolding new_ScramMessageClientFinal_def Let_def clientFinal_split [OF assms] first
      clientFinal_params [OF assms(1,2)]
    using assms by (simp add: truthy_def strval_def token_def element_def)
qed

lemma serverFinal_reads:
  assumes "token verifier"
  shows "new_ScramMessageServerFinal (''v='' @ verifier)
           = Inr \<lparr>sfinal_message = ''v='' @ verifier, sfinal_error = None,
                   sfinal_verifier = Some verifier\<rparr>"
proof -
  have "split (''v='' @ verifier) '','' = [''v'' @ CHR ''='' # verifier]"
    using assms by (subst split_comma_last) (simp_all add: token_def)
  then have "readScramParamString (''v='' @ verifier) = [''v'' \<mapsto> verifier]"
    unfolding readScramParamString_def using assms
    by (simp add: readParts_letter trim_letter trim_token del: readParts.simps(2))
  then show ?thesis
    unfolding new_ScramMessageServerFinal_def Let_def
    using assms by (simp add: truthy_def or_false_def token_def)
qed

lemma libs_ok_decode: "libs_ok L a \<Longrightarrow> Base64_toUint8Array L (Base64_fromUint8Array L b) = b"
  by (simp add: libs_ok_def)

lemma libs_ok_token: "libs_ok L a \<Longrightarrow> b \<noteq> [] \<Longrightarrow> token (Base64_fromUint8Array L b)"
  by (simp add: libs_ok_def)

lemma libs_ok_gs2: "libs_ok L a \<Longrightarrow> token (Base64_encode L ''n,,'')"
  by (simp add: libs_ok_def)

lemma libs_ok_hmac_nonempty: "libs_ok L a \<Longrightarrow> hmac L a message secret \<noteq> []"
  by (simp add: libs_ok_def hmac_def)

lemma libs_ok_hmac_length:
  "libs_ok L a \<Longrightarrow> length (hmac L a message secret) = length (hmac L a message' secret')"
  unfolding libs_ok_def hmac_def by blast

lemma createClientFirstMessage_ok:
  assumes "libs_ok L a" and "gs2_header c = ''n,''" and "token username"
    and "saslPrep L username = Inr u" and "u \<noteq> []" and "randomBuffer \<noteq> []"
  shows "createClientFirstMessage L c username randomBuffer
           = (Inr \<lparr>cfirst_message = ''n,,n='' @ username @ '',r='' @ Base64_fromUint8Array L randomBuffer,
                    cfirst_messageBare = ''n='' @ username @ '',r='' @ Base64_fromUint8Array L randomBuffer,
                    cfirst_user = u, cfirst_gs2CbindFlag = ''n'',
                    cfirst_nonce = Base64_fromUint8Array L randomBuffer, cfirst_mext = None\<rparr>,
              c\<lparr>clientFirstMessage := Some
                  \<lparr>cfirst_message = ''n,,n='' @ username @ '',r='' @ Base64_fromUint8Array L randomBuffer,
                    cfirst_messageBare = ''n='' @ username @ '',r='' @ Base64_fromUint8Array L randomBuffer,
                    cfirst_user = u, cfirst_gs2CbindFlag = ''n'',
                    cfirst_nonce = Base64_fromUint8Array L randomBuffer, cfirst_mext = None\<rparr>\<rparr>)"
proof -
  have nonce: "token (Base64_fromUint8Array L randomBuffer)"
    using assms(1,6) by (rule libs_ok_token)
  show ?thesis
    unfolding createClientFirstMessage_def Let_def assms(2)
      clientFirst_reads [OF assms(3) nonce assms(4,5)]
    by simp
qed

lemma createServerFirstMessage_ok:
  assumes "libs_ok L a" and "clientFirstMessage s = Some cf" and "token (cfirst_nonce cf)"
    and "repo s (cfirst_user cf) = Some user" and "user_salt user \<noteq> []"
    and "0 \<le> user_iterations user" and "randomBuffer \<noteq> []"
  shows "createServerFirstMessage L s randomBuffer
           = (Inr \<lparr>sfirst_message = ''r='' @ (cfirst_nonce cf @ Base64_fromUint8Array L randomBuffer)
                       @ '',s='' @ Base64_fromUint8Array L (user_salt user)
                       @ '',i='' @ Number_toString (user_iterations user),
                    sfirst_nonce = cfirst_nonce cf @ Base64_fromUint8Array L randomBuffer,
                    sfirst_salt = user_salt user, sfirst_iterations = user_iterations user\<rparr>,
              s\<lparr>serverFirstMessage := Some
                  \<lparr>sfirst_message = ''r='' @ (cfirst_nonce cf @ Base64_fromUint8Array L randomBuffer)
                       @ '',s='' @ Base64_fromUint8Array L (user_salt user)
                       @ '',i='' @ Number_toString (user_iterations user),
                    sfirst_nonce = cfirst_nonce cf @ Base64_fromUint8Array L randomBuffer,
                    sfirst_salt = user_salt user, sfirst_iterations = user_iterations user\<rparr>\<rparr>)"
proof -
  have nonce: "token (cfirst_nonce cf @ Base64_fromUint8Array L randomBuffer)"
    using assms(3) libs_ok_token [OF assms(1,7)] by (rule token_append)
  have salt: "token (Base64_fromUint8Array L (user_salt user))"
    using assms(1,5) by (rule libs_ok_token)
  have found: "(if repo_has (repo s) (cfirst_user cf)
                then (case repo_find (repo s) (cfirst_user cf) of
                        Inl e \<Rightarrow> Inl e
                      | Inr user \<Rightarrow> Inr (user_salt user, user_iterations user))
                else Inr (saltGenerator s (cfirst_user cf), default_iterations s))
               = Inr (user_salt user, user_iterations user)"
    using assms(4) by (simp add: repo_has_def repo_find_def)
  show ?thesis
    unfolding createServerFirstMessage_def Let_def assms(2) option.case found
      sum.case prod.case serverFirst_reads [OF nonce salt assms(6)]
    using libs_ok_decode [OF assms(1)] by simp
qed

lemma createClientFinalMessage_ok:
  assumes "libs_ok L (algo c)" and "gs2_header c = ''n,''"
    and "clientFirstMessage c = Some cf" and "serverFirstMessage c = Some sf"
    and "token (sfirst_nonce sf)"
  shows "createClientFinalMessage L c saltedPassword
           = (Inr \<lparr>cfinal_message = (''c='' @ Base64_encode L ''n,,'' @ '',r='' @ sfirst_nonce sf)
                       @ '',p='' @ Base64_fromUint8Array L
                           (xorArrayBuffer (getClientKey L (algo c) saltedPassword)
                              (hmac L (algo c) (getStoredKey L (algo c) saltedPassword)
                                 (TextEncoder_encode
                                    (cfirst_messageBare cf @ '','' @ sfirst_message sf @ '',''
                                       @ ''c='' @ Base64_encode L ''n,,'' @ '',r='' @ sfirst_nonce sf)))),
                    cfinal_messageWithoutProof = ''c='' @ Base64_encode L ''n,,'' @ '',r='' @ sfirst_nonce sf,
                    cfinal_gs2Header = Base64_encode L ''n,,'',
                    cfinal_nonce = sfirst_nonce sf,
                    cfinal_clientProof = Base64_fromUint8Array L
                           (xorArrayBuffer (getClientKey L (algo c) saltedPassword)
                              (hmac L (algo c) (getStoredKey L (algo c) saltedPassword)
                                 (TextEncoder_encode
                                    (cfirst_messageBare cf @ '','' @ sfirst_message sf @ '',''
                                       @ ''c='' @ Base64_encode L ''n,,'' @ '',r='' @ sfirst_nonce sf))))\<rparr>,
              c\<lparr>clientFinalMessage := Some
                  \<lparr>cfinal_message = (''c='' @ Base64_encode L ''n,,'' @ '',r='' @ sfirst_nonce sf)
                       @ '',p='' @ Base64_fromUint8Array L
                           (xorArrayBuffer (getClientKey L (algo c) saltedPassword)
                              (hmac L (algo c) (getStoredKey L (algo c) saltedPassword)
                                 (TextEncoder_encode
                                    (cfirst_messageBare cf @ '','' @ sfirst_message sf @ '',''
                                       @ ''c='' @ Base64_encode L ''n,,'' @ '',r='' @ sfirst_nonce sf)))),
                    cfinal_messageWithoutProof = ''c='' @ Base64_encode L ''n,,'' @ '',r='' @ sfirst_nonce sf,
                    cfinal_gs2Header = Base64_encode L ''n,,'',
                    cfinal_nonce = sfirst_nonce sf,
                    cfinal_clientProof = Base64_fromUint8Array L
                           (xorArrayBuffer (getClientKey L (algo c) saltedPassword)
                              (hmac L (algo c) (getStoredKey L (algo c) saltedPassword)
                                 (TextEncoder_encode
                                    (cfirst_messageBare cf @ '','' @ sfirst_message sf @ '',''
                                       @ ''c='' @ Base64_encode L ''n,,'' @ '',r='' @ sfirst_nonce sf))))\<rparr>\<rparr>)"
proof -
  let ?cfwp = "''c='' @ Base64_encode L ''n,,'' @ '',r='' @ sfirst_nonce sf"
  let ?auth = "TextEncoder_encode (cfirst_messageBare cf @ '','' @ sfirst_message sf @ '','' @ ?cfwp)"
  let ?proof = "Base64_fromUint8Array L
                  (xorArrayBuffer (getClientKey L (algo c) saltedPassword)
                     (hmac L (algo c) (getStoredKey L (algo c) saltedPassword) ?auth))"
  have header: "gs2_header c @ '','' = ''n,,''"
    by (simp add: assms(2))
  have "getClientKey L (algo c) saltedPassword \<noteq> []"
    unfolding getClientKey_def using assms(1) by (rule libs_ok_hmac_nonempty)
  then have "xorArrayBuffer (getClientKey L (algo c) saltedPassword)
               (hmac L (algo c) (getStoredKey L (algo c) saltedPassword) ?auth) \<noteq> []"
    by (rule xor_nonempty)
  with assms(1) have tok: "token ?proof" by (rule libs_ok_token)
  have auth: "getAuthMessage c ?cfwp = Inr ?auth"
    by (simp add: getAuthMessage_def assms(3,4))
  show ?thesis
    unfolding createClientFinalMessage_def Let_def assms(3,4) option.case prod.case header auth
      sum.case clientFinal_reads [OF libs_ok_gs2 [OF assms(1)] assms(5) tok]
    by simp
qed

lemma verifyClientFinalMessage_ok:
  assumes "libs_ok L (algo s)"
    and "clientFirstMessage s = Some cf" and "serverFirstMessage s = Some sf"
    and "clientFinalMessage s = Some cl"
    and "repo s (cfirst_user cf) = Some user"
    and "user_storedKey user = getStoredKey L (algo s) saltedPassword"
    and "cfinal_clientProof cl
           = Base64_fromUint8Array L
               (xorArrayBuffer (getClientKey L (algo s) saltedPassword)
                  (hmac L (algo s) (getStoredKey L (algo s) saltedPassword)
                     (TextEncoder_encode
                        (cfirst_messageBare cf @ '','' @ sfirst_message sf @ '',''
                           @ cfinal_messageWithoutProof cl))))"
  shows "verifyClientFinalMessage L s = (Inr True, s)"
proof -
  let ?auth = "TextEncoder_encode (cfirst_messageBare cf @ '','' @ sfirst_message sf @ '',''
                                     @ cfinal_messageWithoutProof cl)"
  let ?key = "getClientKey L (algo s) saltedPassword"
  let ?signature = "hmac L (algo s) (getStoredKey L (algo s) saltedPassword) ?auth"
  have "length ?key = length ?signature"
    unfolding getClientKey_def using assms(1) by (rule libs_ok_hmac_length)
  then have recovered: "xorArrayBuffer ?signature (xorArrayBuffer ?key ?signature) = ?key"
    by (rule xor_recover)
  have auth: "getAuthMessage s (cfinal_messageWithoutProof cl) = Inr ?auth"
    by (simp add: getAuthMessage_def assms(2,3))
  show ?thesis
    unfolding verifyClientFinalMessage_def Let_def assms(2,3,4) option.case prod.case auth
    using assms(5,6) recovered
    by (simp add: repo_has_def repo_find_def assms(7) libs_ok_decode [OF assms(1)]
        getStoredKey_def)
qed

lemma createServerFinalMessage_ok:
  assumes "libs_ok L (algo s)"
    and "clientFirstMessage s = Some cf" and "serverFirstMessage s = Some sf"
    and "clientFinalMessage s = Some cl"
    and "cfirst_mext cf = None" and "cfirst_gs2CbindFlag cf = ''n''"
    and "repo s (cfirst_user cf) = Some user"
    and "verifyClientFinalMessage L s = (Inr True, s)"
  shows "createServerFinalMessage L s
           = (Inr \<lparr>sfinal_message = ''v='' @ Base64_fromUint8Array L
                       (hmac L (algo s) (user_serverKey user)
                          (TextEncoder_encode
                             (cfirst_messageBare cf @ '','' @ sfirst_message sf @ '',''
                                @ cfinal_messageWithoutProof cl))),
                    sfinal_error = None,
                    sfinal_verifier = Some (Base64_fromUint8Array L
                       (hmac L (algo s) (user_serverKey user)
                          (TextEncoder_encode
                             (cfirst_messageBare cf @ '','' @ sfirst_message sf @ '',''
                                @ cfinal_messageWithoutProof cl))))\<rparr>,
              s\<lparr>serverFinalMessage := Some
                  \<lparr>sfinal_message = ''v='' @ Base64_fromUint8Array L
                       (hmac L (algo s) (user_serverKey user)
                          (TextEncoder_encode
                             (cfirst_messageBare cf @ '','' @ sfirst_message sf @ '',''
                                @ cfinal_messageWithoutProof cl))),
                    sfinal_error = None,
                    sfinal_verifier = Some (Base64_fromUint8Array L
                       (hmac L (algo s) (user_serverKey user)
                          (TextEncoder_encode
                             (cfirst_messageBare cf @ '','' @ sfirst_message sf @ '',''
                                @ cfinal_messageWithoutProof cl))))\<rparr>\<rparr>)"
proof -
  let ?auth = "TextEncoder_encode (cfirst_messageBare cf @ '','' @ sfirst_message sf @ '',''
                                     @ cfinal_messageWithoutProof cl)"
  let ?verifier = "Base64_fromUint8Array L (hmac L (algo s) (user_serverKey user) ?auth)"
  have tok: "token ?verifier"
    using assms(1) libs_ok_hmac_nonempty [OF assms(1)] by (rule libs_ok_token)
  have auth: "getAuthMessage s (cfinal_messageWithoutProof cl) = Inr ?auth"
    by (simp add: getAuthMessage_def assms(2,3))
  have built: "createServerFinalMessage_try L s cf cl
               = Inr \<lparr>sfinal_message = ''v='' @ ?verifier, sfinal_error = None,
                       sfinal_verifier = Some ?verifier\<rparr>"
    unfolding createServerFinalMessage_try_def Let_def auth sum.case assms(8) fst_conv
    using assms(5,6,7) serverFinal_reads [OF tok]
    by (simp add: truthy_def repo_find_def)
  show ?thesis
    unfolding createServerFinalMessage_def assms(2,3,4) option.case prod.case built sum.case
    by simp
qed

lemma verifyServerFinalMessage_ok:
  assumes "clientFirstMessage c = Some cf" and "serverFirstMessage c = Some sf"
    and "clientFinalMessage c = Some cl" and "serverFinalMessage c = Some fin"
    and "sfinal_verifier fin
           = Some (Base64_fromUint8Array L
                     (hmac L (algo c) (getServerKey L (algo c) saltedPassword)
                        (TextEncoder_encode
                           (cfirst_messageBare cf @ '','' @ sfirst_message sf @ '',''
                              @ cfinal_messageWithoutProof cl))))"
  shows "verifyServerFinalMessage L c saltedPassword = (Inr True, c)"
  using assms by (simp add: verifyServerFinalMessage_def getAuthMessage_def Let_def)

text \<open>
  Claim C1: for every user name, password, salt and iteration count that are valid (the
  name is a token that preparation accepts with a non-empty result, the password is
  accepted by preparation, the salt is not empty, the count is positive), with
  libraries as \<open>libs_ok\<close> describes and 24 random bytes on each side, the standard
  exchange against a repository in which the user was registered with the salted
  password of that password, salt and count ends with both verifications \<open>true\<close>.
\<close>

theorem C1_standard_exchange_verifies:
  assumes "libs_ok L a"
    and "token username" and "saslPrep L username = Inr u" and "u \<noteq> []"
    and "ScramAlgo_getSaltedPassword L a password salt n = Inr saltedPassword"
    and "salt \<noteq> []" and "0 < n"
    and "length clientRandom = 24" and "length serverRandom = 24"
    and "registerUser L a users0 username salt saltedPassword n = Inr users"
  shows "standard_authentication_exchange L a users generator n0 username saltedPassword
           clientRandom serverRandom = Inr (True, True)"
proof -
  let ?user = "\<lparr>user_username = u, user_salt = salt, user_iterations = n,
                 user_serverKey = getServerKey L a saltedPassword,
                 user_storedKey = getStoredKey L a saltedPassword\<rparr>"
  have registered: "users u = Some ?user"
    using assms(3,10) by (auto simp: registerUser_def repo_addUser_def Let_def)
  have rc: "clientRandom \<noteq> []" and rs: "serverRandom \<noteq> []"
    using assms(8,9) by auto
  let ?client0 = "new_ScramRequestClient a None"
  let ?server0 = "new_ScramRequestServer a users generator n0 None"
  let ?N = "Base64_fromUint8Array L clientRandom"
  let ?cf = "\<lparr>cfirst_message = ''n,,n='' @ username @ '',r='' @ ?N,
               cfirst_messageBare = ''n='' @ username @ '',r='' @ ?N,
               cfirst_user = u, cfirst_gs2CbindFlag = ''n'',
               cfirst_nonce = ?N, cfirst_mext = None\<rparr>"
  have step1: "createClientFirstMessage L ?client0 username clientRandom
                 = (Inr ?cf, ?client0\<lparr>clientFirstMessage := Some ?cf\<rparr>)"
    using assms(1) _ assms(2,3,4) rc
    by (rule createClientFirstMessage_ok) (simp add: new_ScramRequestClient_def)
  let ?client1 = "?client0\<lparr>clientFirstMessage := Some ?cf\<rparr>"
  let ?server1 = "setClientFirstMessage ?server0 ?cf"
  let ?sf = "\<lparr>sfirst_message = ''r='' @ (?N @ Base64_fromUint8Array L serverRandom)
                       @ '',s='' @ Base64_fromUint8Array L salt
                       @ '',i='' @ Number_toString n,
               sfirst_nonce = ?N @ Base64_fromUint8Array L serverRandom,
               sfirst_salt = salt, sfirst_iterations = n\<rparr>"
  have step2: "createServerFirstMessage L ?server1 serverRandom
                 = (Inr ?sf, ?server1\<lparr>serverFirstMessage := Some ?sf\<rparr>)"
    using createServerFirstMessage_ok [where L = L and a = a and s = ?server1 and cf = ?cf
        and user = ?user and randomBuffer = serverRandom]
      assms(1,6,7) rs registered libs_ok_token [OF assms(1) rc]
    by (simp add: setClientFirstMessage_def new_ScramRequestServer_def)
  let ?server2 = "?server1\<lparr>serverFirstMessage := Some ?sf\<rparr>"
  let ?client2 = "setServerFirstMessage ?client1 ?sf"
  let ?cfwp = "''c='' @ Base64_encode L ''n,,'' @ '',r='' @ sfirst_nonce ?sf"
  let ?auth = "TextEncoder_encode
                 (cfirst_messageBare ?cf @ '','' @ sfirst_message ?sf @ '','' @ ?cfwp)"
  let ?proof = "Base64_fromUint8Array L
                  (xorArrayBuffer (getClientKey L a saltedPassword)
                     (hmac L a (getStoredKey L a saltedPassword) ?auth))"
  let ?cl = "\<lparr>cfinal_message = ?cfwp @ '',p='' @ ?proof,
               cfinal_messageWithoutProof = ?cfwp,
               cfinal_gs2Header = Base64_encode L ''n,,'',
               cfinal_nonce = sfirst_nonce ?sf,
               cfinal_clientProof = ?proof\<rparr>"
  have nonce: "token (sfirst_nonce ?sf)"
    using libs_ok_token [OF assms(1) rc] libs_ok_token [OF assms(1) rs]
    by (simp add: token_append)
  have step3: "createClientFinalMessage L ?client2 saltedPassword
                 = (Inr ?cl, ?client2\<lparr>clientFinalMessage := Some ?cl\<rparr>)"
    using createClientFinalMessage_ok [where L = L and c = ?client2 and cf = ?cf and sf = ?sf
        and saltedPassword = saltedPassword] assms(1) nonce
    by (simp add: setServerFirstMessage_def new_ScramRequestClient_def)
  let ?client3 = "?client2\<lparr>clientFinalMessage := Some ?cl\<rparr>"
  let ?server3 = "setClientFinalMessage ?server2 ?cl"
  have verdict3: "verifyClientFinalMessage L ?server3 = (Inr True, ?server3)"
    using verifyClientFinalMessage_ok [where L = L and s = ?server3 and cf = ?cf and sf = ?sf
        and cl = ?cl and user = ?user and saltedPassword = saltedPassword] assms(1) registered
    by (simp add: setClientFinalMessage_def setClientFirstMessage_def new_ScramRequestServer_def)
  let ?verifier = "Base64_fromUint8Array L (hmac L a (getServerKey L a saltedPassword) ?auth)"
  let ?fin = "\<lparr>sfinal_message = ''v='' @ ?verifier, sfinal_error = None,
                sfinal_verifier = Some ?verifier\<rparr>"
  have step4: "createServerFinalMessage L ?server3
                 = (Inr ?fin, ?server3\<lparr>serverFinalMessage := Some ?fin\<rparr>)"
    using createServerFinalMessage_ok [where L = L and s = ?server3 and cf = ?cf and sf = ?sf
        and cl = ?cl and user = ?user, OF _ _ _ _ _ _ _ verdict3] assms(1) registered
    by (simp add: setClientFinalMessage_def setClientFirstMessage_def new_ScramRequestServer_def)
  let ?server4 = "?server3\<lparr>serverFinalMessage := Some ?fin\<rparr>"
  let ?client4 = "setServerFinalMessage ?client3 ?fin"
  have verdict4: "verifyClientFinalMessage L ?server4 = (Inr True, ?server4)"
    using verifyClientFinalMessage_ok [where L = L and s = ?server4 and cf = ?cf and sf = ?sf
        and cl = ?cl and user = ?user and saltedPassword = saltedPassword] assms(1) registered
    by (simp add: setClientFinalMessage_def setClientFirstMessage_def new_ScramRequestServer_def)
  have verdict5: "verifyServerFinalMessage L ?client4 saltedPassword = (Inr True, ?client4)"
    using verifyServerFinalMessage_ok [where L = L and c = ?client4 and cf = ?cf and sf = ?sf
        and cl = ?cl and fin = ?fin and saltedPassword = saltedPassword]
    by (simp add: setServerFinalMessage_def setServerFirstMessage_def new_ScramRequestClient_def)
  show ?thesis
    by (simp only: standard_authentication_exchange_def Let_def step1 step2 step3 step4
        verdict4 verdict5 prod.case sum.case)
qed

lemma hexChar_facts:
  assumes "d < 16"
  shows "hexValue (hexChar d) = d" "hexChar d \<noteq> CHR '',''" "\<not> isWhiteSpace (hexChar d)"
proof -
  from assms have d: "d \<in> {0, 1, 2, 3, 4, 5, 6, 7, 8, 9, 10, 11, 12, 13, 14, 15}"
    by simp arith
  from d show "hexValue (hexChar d) = d"
    by (elim insertE) (simp_all add: hexChar_def hexValue_def digitValue_def of_char_of)
  from d show "hexChar d \<noteq> CHR '',''"
    by (elim insertE) (simp_all add: hexChar_def char_of_eq_iff)
  from d show "\<not> isWhiteSpace (hexChar d)"
    by (elim insertE) (simp_all add: hexChar_def isWhiteSpace_def of_char_of)
qed

lemma unhex_hexByte: "unhex (hexByte b @ rest) = b # unhex rest"
proof -
  have "unat b div 16 < 16"
    using unsigned_less [of b, where ?'a = nat] by (simp add: less_mult_imp_div_less)
  moreover have "unat b mod 16 < 16" by simp
  ultimately have "16 * hexValue (hexChar (unat b div 16)) + hexValue (hexChar (unat b mod 16))
                     = unat b"
    by (simp add: hexChar_facts(1))
  then show ?thesis by (simp add: hexByte_def)
qed

lemma unhex_hex: "unhex (concat (map hexByte bytes)) = bytes"
  by (induction bytes) (simp_all add: unhex_hexByte)

lemma hexByte_chars: "c \<in> set (hexByte b) \<Longrightarrow> c \<noteq> CHR '','' \<and> \<not> isWhiteSpace c"
proof -
  assume c: "c \<in> set (hexByte b)"
  have "unat b div 16 < 16"
    using unsigned_less [of b, where ?'a = nat] by (simp add: less_mult_imp_div_less)
  moreover have "unat b mod 16 < 16" by simp
  ultimately show ?thesis
    using c hexChar_facts(2,3) by (auto simp: hexByte_def)
qed

lemma token_hex:
  assumes "bytes \<noteq> []"
  shows "token (concat (map hexByte bytes))"
proof -
  let ?s = "concat (map hexByte bytes)"
  have chars: "c \<noteq> CHR '','' \<and> \<not> isWhiteSpace c" if "c \<in> set ?s" for c
    using that hexByte_chars by auto
  have nonempty: "?s \<noteq> []"
    using assms by (cases bytes) (simp_all add: hexByte_def)
  have "hd ?s \<in> set ?s" using nonempty by (rule hd_in_set)
  moreover have "last ?s \<in> set ?s" using nonempty by (rule last_in_set)
  ultimately show ?thesis
    unfolding token_def using chars nonempty by blast
qed

lemma libs_ok_demo: "libs_ok demo_libs demo_algo"
proof -
  have "TextEncoder_encode ''n,,'' \<noteq> []"
    by (simp add: TextEncoder_encode_def utf8_unit_def)
  then have "token (concat (map hexByte (TextEncoder_encode ''n,,'')))"
    by (rule token_hex)
  then show ?thesis
    by (simp add: libs_ok_def demo_libs_def unhex_hex token_hex)
qed

theorem C1_standard_exchange_verifies_witness:
  "standard_authentication_exchange demo_libs demo_algo demo_users (\<lambda>username. [9]) 4096
     ''user'' demo_saltedPassword (replicate 24 7) (replicate 24 9) = Inr (True, True)"
proof -
  have "token ''user''"
    by (simp add: token_def isWhiteSpace_def)
  moreover have "saslPrep demo_libs ''user'' = Inr ''user''"
    by (simp add: demo_libs_def)
  moreover have "ScramAlgo_getSaltedPassword demo_libs demo_algo ''pencil'' [1, 2, 3] 4096
                   = Inr demo_saltedPassword"
    by (simp add: ScramAlgo_getSaltedPassword_def demo_saltedPassword_def demo_libs_def)
  moreover have "registerUser demo_libs demo_algo Map.empty ''user'' [1, 2, 3]
                   demo_saltedPassword 4096 = Inr demo_users"
    by (simp add: registerUser_def demo_users_def demo_libs_def)
  ultimately show ?thesis
    using C1_standard_exchange_verifies [OF libs_ok_demo, where username = "''user''" and u = "''user''"
        and password = "''pencil''" and salt = "[1, 2, 3]" and n = 4096
        and saltedPassword = demo_saltedPassword and ?users0.0 = Map.empty
        and users = demo_users and clientRandom = "replicate 24 7"
        and serverRandom = "replicate 24 9" and generator = "\<lambda>username. [9]" and ?n0.0 = 4096]
    by simp
qed

end
